theory Spec2Isabelle
  imports Complex_Main
begin

section \<open>Values and strings\<close>

text \<open>
  Values that travel through the service are JSON values: the claim response is decoded
  JSON, and every payload is encoded as JSON. A Python \<open>dict\<close> with string keys is an
  association list in insertion order, looked up with \<open>map_of\<close> (the keys of a \<open>dict\<close> are
  distinct; were a key listed twice, the first entry would be the one found). Python's
  \<open>None\<close> is \<open>JNull\<close>. Floating-point numbers are not interpreted by any code path
  modelled here and are left out.
\<close>

datatype json =
    JNull
  | JBool bool
  | JInt int
  | JStr string
  | JList "json list"
  | JDict "(string \<times> json) list"

type_synonym jdict = "(string \<times> json) list"

text \<open>
  Exceptions, by class. Only subclasses of Python's \<open>Exception\<close> are modelled (the
  handlers of the claim loop catch \<open>Exception\<close>). \<open>OtherException c m\<close> is an exception
  of class \<open>c\<close> raised by the environment (the transport, a runner) with text \<open>m\<close>.
\<close>

datatype exn =
    KeyError string
  | AttributeError
  | TypeError
  | ValueError string
  | JSONDecodeError
  | RuntimeError string
  | OtherException string string

text \<open>
  Python strings are modelled as \<open>string\<close> over ASCII: \<open>str.lower\<close> maps \<open>A\<close>..\<open>Z\<close> to
  \<open>a\<close>..\<open>z\<close> and leaves every other character alone; \<open>str.strip\<close> removes leading and
  trailing whitespace (code points 9..13, 28..31 and 32).
\<close>

definition is_space :: "char \<Rightarrow> bool" where
  "is_space c = (let n = (of_char c :: nat) in (9 \<le> n \<and> n \<le> 13) \<or> (28 \<le> n \<and> n \<le> 32))"

definition is_upper :: "char \<Rightarrow> bool" where
  "is_upper c = (let n = (of_char c :: nat) in 65 \<le> n \<and> n \<le> 90)"

definition lower_char :: "char \<Rightarrow> char" where
  "lower_char c = (if is_upper c then char_of ((of_char c :: nat) + 32) else c)"

definition lower :: "string \<Rightarrow> string" where
  "lower s = map lower_char s"

definition strip :: "string \<Rightarrow> string" where
  "strip s = rev (dropWhile is_space (rev (dropWhile is_space s)))"

text \<open>Two characters, and two strings, that differ at most in letter case.\<close>

definition case_variant :: "char \<Rightarrow> char \<Rightarrow> bool" where
  "case_variant x y = (x = y \<or> (is_upper x \<and> y = lower_char x) \<or> (is_upper y \<and> x = lower_char y))"

definition differ_only_in_case :: "string \<Rightarrow> string \<Rightarrow> bool" where
  "differ_only_in_case a b = list_all2 case_variant a b"

section \<open>Runner registry\<close>

text \<open>
  \<open>RunnerRegistry.get\<close>:
  \<^verbatim>\<open>
    key = adapter_id.strip().lower()
    if key not in self._runners:
        raise KeyError(f"No runner registered for adapter: {adapter_id}")
    return self._runners[key]
  \<close>
  The registry is the dictionary \<open>_runners\<close>. The lookup is written in state-passing
  style: it returns its outcome together with the registry as it is after the call.
  An \<open>adapter_id\<close> that is not a string has no \<open>strip\<close> attribute.
\<close>

type_synonym 'r registry = "string \<rightharpoonup> 'r"

definition registry_key :: "string \<Rightarrow> string" where
  "registry_key adapter_id = lower (strip adapter_id)"

definition RunnerRegistry_get :: "'r registry \<Rightarrow> json \<Rightarrow> (exn + 'r) \<times> 'r registry" where
  "RunnerRegistry_get runners adapter_id =
     (case adapter_id of
        JStr a \<Rightarrow>
          (let key = registry_key a in
           case runners key of
             None \<Rightarrow> (Inl (KeyError (''No runner registered for adapter: '' @ a)), runners)
           | Some runner \<Rightarrow> (Inr runner, runners))
      | _ \<Rightarrow> (Inl AttributeError, runners))"

section \<open>Data model\<close>

text \<open>
  \<open>models.py\<close>. An \<open>ExecutionTask\<close> is built by \<open>claim_tasks\<close> from the decoded claim
  response without any conversion, so each field holds whatever JSON value arrived
  (\<open>JNull\<close> for \<open>None\<close>). A \<open>RunnerResult\<close> is built by runner code and has the types
  its dataclass declares.
\<close>

record execution_task =
  task_id :: json
  execution_run_id :: json
  robot_plan_id :: json
  adapter_id :: json
  target_platform :: json
  contract_version :: json
  runtime_parameters :: json
  artifact_refs :: json
  lease_expires_at :: json

record log_entry =
  message :: string
  level :: string
  code :: "string option"
  data :: "jdict option"
  timestamp :: "string option"

record runner_result =
  final_status :: string
  logs :: "log_entry list"
  artifacts :: "json list"
  measurements :: "json list"
  failure :: "jdict option"
  external :: "jdict option"

text \<open>\<open>config.py\<close>: \<open>ExecutorConfig\<close>.\<close>

record executor_config =
  api_base_url :: string
  executor_id :: string
  executor_token :: string
  capabilities :: "string list"
  max_tasks :: int
  lease_duration_ms :: int
  poll_interval_ms :: int
  run_once :: bool

text \<open>
  Python's truth value of an optional dictionary (\<open>if result.failure:\<close>,
  \<open>if progress\<close>): \<open>None\<close> and the empty dictionary are both false.
\<close>

definition truthy_dict :: "jdict option \<Rightarrow> bool" where
  "truthy_dict d = (case d of None \<Rightarrow> False | Some kvs \<Rightarrow> kvs \<noteq> [])"

section \<open>Effects, state and the reporting client\<close>

text \<open>
  The four reporting operations of the client, with the arguments the claim loop passes.
  An argument the caller leaves out takes the default \<open>None\<close> of the signature.
\<close>

datatype call =
    Heartbeat execution_task int "jdict option"
  | AppendLogs execution_task int "log_entry list"
  | UpdateStatus execution_task int string "jdict option" "jdict option"
  | Complete execution_task int string "json list" "json list"

text \<open>
  What the claim loop does to the outside, in the order it does it: a call of
  \<open>client.claim_tasks()\<close>, a reporting call, an invocation \<open>runner.run(task)\<close>, a
  structural log event (\<open>_log(event, **fields)\<close>; its wall-clock field \<open>at\<close> is not
  recorded), and \<open>time.sleep\<close> with its argument in seconds.
\<close>

datatype effect =
    ClaimTasks
  | Report call
  | RunnerRun execution_task
  | Log string jdict
  | Sleep real

text \<open>
  The state threaded through the loop: the trace of effects so far (oldest first) and the
  world \<open>'w\<close>, which stands for everything outside the process (the server, the clock,
  the environment). Client operations and runners are functions of the world that return
  either an exception or a value, and the world after the call.
\<close>

record 'w state =
  trace :: "effect list"
  world :: 'w

record 'w client =
  claim_tasks :: "'w \<Rightarrow> (exn + execution_task list) \<times> 'w"
  heartbeat :: "execution_task \<Rightarrow> int \<Rightarrow> jdict option \<Rightarrow> 'w \<Rightarrow> (exn + json) \<times> 'w"
  append_logs :: "execution_task \<Rightarrow> int \<Rightarrow> log_entry list \<Rightarrow> 'w \<Rightarrow> (exn + json) \<times> 'w"
  update_status ::
    "execution_task \<Rightarrow> int \<Rightarrow> string \<Rightarrow> jdict option \<Rightarrow> jdict option \<Rightarrow> 'w \<Rightarrow> (exn + json) \<times> 'w"
  complete ::
    "execution_task \<Rightarrow> int \<Rightarrow> string \<Rightarrow> json list \<Rightarrow> json list \<Rightarrow> 'w \<Rightarrow> (exn + json) \<times> 'w"

type_synonym 'w runner = "execution_task \<Rightarrow> 'w \<Rightarrow> (exn + runner_result) \<times> 'w"

type_synonym ('a, 'w) action = "'w state \<Rightarrow> (exn + 'a) \<times> 'w state"

definition return_ok :: "'a \<Rightarrow> ('a, 'w) action" where
  "return_ok x s = (Inr x, s)"

definition and_then :: "('a, 'w) action \<Rightarrow> ('a \<Rightarrow> ('b, 'w) action) \<Rightarrow> ('b, 'w) action" where
  "and_then m f s = (case m s of (Inl e, s') \<Rightarrow> (Inl e, s') | (Inr x, s') \<Rightarrow> f x s')"

definition emit :: "effect \<Rightarrow> 'w state \<Rightarrow> 'w state" where
  "emit e s = s\<lparr>trace := trace s @ [e]\<rparr>"

definition log_event :: "string \<Rightarrow> jdict \<Rightarrow> (unit, 'w) action" where
  "log_event event kvs s = (Inr (), emit (Log event kvs) s)"

definition perform :: "'w client \<Rightarrow> call \<Rightarrow> 'w \<Rightarrow> (exn + json) \<times> 'w" where
  "perform client c =
     (case c of
        Heartbeat task sequence progress \<Rightarrow> heartbeat client task sequence progress
      | AppendLogs task sequence entries \<Rightarrow> append_logs client task sequence entries
      | UpdateStatus task sequence status fl ext \<Rightarrow> update_status client task sequence status fl ext
      | Complete task sequence fs arts meas \<Rightarrow> complete client task sequence fs arts meas)"

text \<open>A reporting call made by the loop: recorded in the trace, then answered by the client.\<close>

definition report :: "'w client \<Rightarrow> call \<Rightarrow> (json, 'w) action" where
  "report client c s =
     (case perform client c (world s) of
        (r, w') \<Rightarrow> (r, \<lparr>trace = trace s @ [Report c], world = w'\<rparr>))"

text \<open>
  The claim loop is handed a registry object and only ever calls its \<open>get\<close> method, so
  the object is represented by that method. \<open>registry_of runners\<close> is the object of
  class \<open>RunnerRegistry\<close> whose dictionary is \<open>runners\<close>.
\<close>

type_synonym 'w lookup = "json \<Rightarrow> exn + 'w runner"

definition registry_of :: "'w runner registry \<Rightarrow> 'w lookup" where
  "registry_of runners a = fst (RunnerRegistry_get runners a)"

definition lookup_runner :: "'w lookup \<Rightarrow> json \<Rightarrow> ('w runner, 'w) action" where
  "lookup_runner registry a s = (registry a, s)"

definition run_runner :: "'w runner \<Rightarrow> execution_task \<Rightarrow> (runner_result, 'w) action" where
  "run_runner runner task s =
     (case runner task (world s) of
        (r, w') \<Rightarrow> (r, \<lparr>trace = trace s @ [RunnerRun task], world = w'\<rparr>))"

section \<open>Claim loop\<close>

text \<open>
  \<open>ClaimLoop._process_task\<close>. The counter \<open>seq\<close> is 1 at the heartbeat and is
  incremented after each reporting call that is made.
\<close>

definition process_task ::
  "executor_config \<Rightarrow> 'w client \<Rightarrow> 'w lookup \<Rightarrow> execution_task \<Rightarrow> (unit, 'w) action" where
  "process_task cfg client registry task =
     (let seq = 1 in
      and_then (log_event ''task_claimed''
                  [(''executorId'', JStr (executor_id cfg)), (''taskId'', task_id task),
                   (''executionRunId'', execution_run_id task), (''adapterId'', adapter_id task)]) (\<lambda>_.
      and_then (report client (Heartbeat task seq (Some [(''state'', JStr ''starting'')]))) (\<lambda>_.
      let seq = seq + 1 in
      and_then (lookup_runner registry (adapter_id task)) (\<lambda>runner.
      and_then (run_runner runner task) (\<lambda>result.
      and_then (if logs result \<noteq> []
                then and_then (report client (AppendLogs task seq (logs result))) (\<lambda>_. return_ok (seq + 1))
                else return_ok seq) (\<lambda>seq.
      and_then (if truthy_dict (failure result)
                then report client (UpdateStatus task seq ''failed'' (failure result) (external result))
                else report client (UpdateStatus task seq ''running'' None (external result))) (\<lambda>_.
      let seq = seq + 1 in
      and_then (report client (Complete task seq (final_status result) (artifacts result)
                                 (measurements result))) (\<lambda>_.
      log_event ''task_completed''
        [(''executorId'', JStr (executor_id cfg)), (''taskId'', task_id task),
         (''executionRunId'', execution_run_id task),
         (''finalStatus'', JStr (final_status result))]))))))))"

text \<open>
  The body of the \<open>for\<close> loop of \<open>run_cycle\<close>: \<open>_process_task\<close> under \<open>try\<close>, and the
  handler. The result is whether \<open>processed\<close> is incremented. \<open>str_exc\<close> is Python's
  \<open>str\<close> on an exception object. The recovery call is itself under \<open>try\<close> with
  \<open>except Exception: pass\<close>, so its outcome is dropped.
\<close>

definition handle_task ::
  "(exn \<Rightarrow> string) \<Rightarrow> executor_config \<Rightarrow> 'w client \<Rightarrow> 'w lookup \<Rightarrow> execution_task
     \<Rightarrow> 'w state \<Rightarrow> bool \<times> 'w state" where
  "handle_task str_exc cfg client registry task s =
     (case process_task cfg client registry task s of
        (Inr _, s1) \<Rightarrow> (True, s1)
      | (Inl exc, s1) \<Rightarrow>
          (let s2 = snd (log_event ''task_error''
                      [(''executorId'', JStr (executor_id cfg)), (''taskId'', task_id task),
                       (''executionRunId'', execution_run_id task),
                       (''error'', JStr (str_exc exc))] s1);
               s3 = snd (report client
                      (UpdateStatus task 999999 ''failed''
                         (Some [(''code'', JStr ''EXECUTOR_EXCEPTION''), (''class'', JStr ''transient''),
                                (''message'', JStr (str_exc exc))])
                         None) s2)
           in (False, s3)))"

fun run_tasks ::
  "(exn \<Rightarrow> string) \<Rightarrow> executor_config \<Rightarrow> 'w client \<Rightarrow> 'w lookup \<Rightarrow> execution_task list
     \<Rightarrow> int \<Rightarrow> 'w state \<Rightarrow> int \<times> 'w state" where
  "run_tasks str_exc cfg client registry [] processed s = (processed, s)"
| "run_tasks str_exc cfg client registry (task # tasks) processed s =
     (case handle_task str_exc cfg client registry task s of
        (ok, s') \<Rightarrow>
          run_tasks str_exc cfg client registry tasks (if ok then processed + 1 else processed) s')"

definition do_claim :: "'w client \<Rightarrow> (execution_task list, 'w) action" where
  "do_claim client s =
     (case claim_tasks client (world s) of
        (r, w') \<Rightarrow> (r, \<lparr>trace = trace s @ [ClaimTasks], world = w'\<rparr>))"

text \<open>\<open>ClaimLoop.run_cycle\<close>. The call of \<open>claim_tasks\<close> is outside every \<open>try\<close>.\<close>

definition run_cycle ::
  "(exn \<Rightarrow> string) \<Rightarrow> executor_config \<Rightarrow> 'w client \<Rightarrow> 'w lookup \<Rightarrow> (int, 'w) action" where
  "run_cycle str_exc cfg client registry =
     and_then (do_claim client) (\<lambda>tasks.
       if tasks = []
       then and_then (log_event ''idle'' [(''executorId'', JStr (executor_id cfg))]) (\<lambda>_. return_ok 0)
       else (\<lambda>s. case run_tasks str_exc cfg client registry tasks 0 s of
                    (processed, s') \<Rightarrow> (Inr processed, s')))"



text \<open>Projections of a trace.\<close>

fun reports :: "effect list \<Rightarrow> call list" where
  "reports [] = []"
| "reports (Report c # es) = c # reports es"
| "reports (_ # es) = reports es"

fun call_sequence :: "call \<Rightarrow> int" where
  "call_sequence (Heartbeat _ n _) = n"
| "call_sequence (AppendLogs _ n _) = n"
| "call_sequence (UpdateStatus _ n _ _ _) = n"
| "call_sequence (Complete _ n _ _ _) = n"

section \<open>Built-in functions of the language\<close>

text \<open>
  Python's \<open>str\<close> on a value, as used by f-strings: a string is itself, an integer is
  written in decimal, \<open>None\<close> and the Booleans by name. The text of a list or dictionary
  (\<open>repr\<close>), \<open>str\<close> on an exception object, \<open>json.loads\<close> (\<open>None\<close> stands for
  \<open>JSONDecodeError\<close>) and \<open>int\<close> on a string (\<open>None\<close> stands for \<open>ValueError\<close>) are
  library functions and are parameters of the model.
\<close>

record builtins =
  str_of_exc :: "exn \<Rightarrow> string"
  py_repr :: "json \<Rightarrow> string"
  json_loads :: "string \<Rightarrow> json option"
  py_int :: "string \<Rightarrow> int option"

fun str_nat :: "nat \<Rightarrow> string" where
  "str_nat n =
     (if n < 10 then [char_of (48 + n)] else str_nat (n div 10) @ [char_of (48 + n mod 10)])"

declare str_nat.simps [simp del]

definition str_int :: "int \<Rightarrow> string" where
  "str_int i = (if i < 0 then CHR ''-'' # str_nat (nat (- i)) else str_nat (nat i))"

definition format_value :: "builtins \<Rightarrow> json \<Rightarrow> string" where
  "format_value B v =
     (case v of
        JStr s \<Rightarrow> s
      | JInt i \<Rightarrow> str_int i
      | JNull \<Rightarrow> ''None''
      | JBool b \<Rightarrow> (if b then ''True'' else ''False'')
      | _ \<Rightarrow> py_repr B v)"

text \<open>
  Operations on decoded JSON values: \<open>d.get(k, default)\<close>, \<open>d[k]\<close> and \<open>for x in v\<close>.
  Only a dictionary has \<open>get\<close>; subscripting with a string key works on a dictionary
  only; iterating a dictionary yields its keys, iterating a string its characters.
\<close>

definition dict_get :: "json \<Rightarrow> string \<Rightarrow> json \<Rightarrow> exn + json" where
  "dict_get d k dflt =
     (case d of
        JDict kvs \<Rightarrow> Inr (case map_of kvs k of None \<Rightarrow> dflt | Some v \<Rightarrow> v)
      | _ \<Rightarrow> Inl AttributeError)"

definition getitem :: "json \<Rightarrow> string \<Rightarrow> exn + json" where
  "getitem d k =
     (case d of
        JDict kvs \<Rightarrow> (case map_of kvs k of None \<Rightarrow> Inl (KeyError k) | Some v \<Rightarrow> Inr v)
      | _ \<Rightarrow> Inl TypeError)"

definition py_iter :: "json \<Rightarrow> exn + json list" where
  "py_iter v =
     (case v of
        JList xs \<Rightarrow> Inr xs
      | JDict kvs \<Rightarrow> Inr (map (\<lambda>kv. JStr (fst kv)) kvs)
      | JStr s \<Rightarrow> Inr (map (\<lambda>c. JStr [c]) s)
      | _ \<Rightarrow> Inl TypeError)"

definition bind_sum :: "exn + 'a \<Rightarrow> ('a \<Rightarrow> exn + 'b) \<Rightarrow> exn + 'b" where
  "bind_sum m f = (case m of Inl e \<Rightarrow> Inl e | Inr x \<Rightarrow> f x)"

section \<open>Reporting client over HTTP\<close>

text \<open>
  \<open>cl_client.py\<close>. A request as \<open>_post\<close> builds it; \<open>body\<close> is the payload before
  \<open>json.dumps\<close>. \<open>urlopen\<close> stands for building the request object, sending it and reading
  and decoding the answer: a response body, an \<open>HTTPError\<close> with its status code and
  decoded body, or any other exception. The state of the client side records every
  request handed to \<open>urlopen\<close>.
\<close>

record request =
  url :: string
  body :: json
  http_method :: string
  headers :: "(string \<times> string) list"
  timeout :: int

datatype http_result =
    Response string
  | HTTPError int string
  | Failed exn

record 'n wire =
  sent :: "request list"
  net :: 'n

type_synonym 'n transport = "request \<Rightarrow> 'n \<Rightarrow> http_result \<times> 'n"

definition CLClient_headers :: "executor_config \<Rightarrow> (string \<times> string) list" where
  "CLClient_headers cfg =
     (''content-type'', ''application/json'') #
     (if executor_token cfg \<noteq> [] then [(''authorization'', ''Bearer '' @ executor_token cfg)] else [])"

definition CLClient_post ::
  "builtins \<Rightarrow> 'n transport \<Rightarrow> executor_config \<Rightarrow> string \<Rightarrow> json \<Rightarrow> 'n wire \<Rightarrow> (exn + json) \<times> 'n wire" where
  "CLClient_post B urlopen cfg path payload w =
     (let req = \<lparr>url = api_base_url cfg @ path, body = payload, http_method = ''POST'',
                 headers = CLClient_headers cfg, timeout = 30\<rparr>
      in case urlopen req (net w) of
           (res, n') \<Rightarrow>
             ((case res of
                 Response b \<Rightarrow>
                   (if b \<noteq> []
                    then (case json_loads B b of
                            None \<Rightarrow> Inl JSONDecodeError
                          | Some v \<Rightarrow> Inr v)
                    else Inr (JDict []))
               | HTTPError status detail \<Rightarrow>
                   Inl (RuntimeError (''HTTP '' @ str_int status @ '' '' @ path @ '': '' @ detail))
               | Failed e \<Rightarrow> Inl e),
              \<lparr>sent = sent w @ [req], net = n'\<rparr>))"

text \<open>One item of the claim response becomes an \<open>ExecutionTask\<close>; the arguments are
  evaluated in the order they are written.\<close>

definition task_of_item :: "json \<Rightarrow> exn + execution_task" where
  "task_of_item item =
     bind_sum (getitem item ''taskId'') (\<lambda>v1.
     bind_sum (getitem item ''executionRunId'') (\<lambda>v2.
     bind_sum (getitem item ''robotPlanId'') (\<lambda>v3.
     bind_sum (getitem item ''adapterId'') (\<lambda>v4.
     bind_sum (getitem item ''targetPlatform'') (\<lambda>v5.
     bind_sum (dict_get item ''contractVersion'' (JStr ''execution-task/v1'')) (\<lambda>v6.
     bind_sum (dict_get item ''runtimeParameters'' (JDict [])) (\<lambda>v7.
     bind_sum (dict_get item ''artifactRefs'' (JList [])) (\<lambda>v8.
     bind_sum (dict_get item ''leaseExpiresAt'' JNull) (\<lambda>v9.
       Inr \<lparr>task_id = v1, execution_run_id = v2, robot_plan_id = v3, adapter_id = v4,
            target_platform = v5, contract_version = v6, runtime_parameters = v7,
            artifact_refs = v8, lease_expires_at = v9\<rparr>)))))))))"

fun build_tasks :: "json list \<Rightarrow> execution_task list \<Rightarrow> exn + execution_task list" where
  "build_tasks [] tasks = Inr tasks"
| "build_tasks (item # items) tasks =
     (case task_of_item item of
        Inl e \<Rightarrow> Inl e
      | Inr t \<Rightarrow> build_tasks items (tasks @ [t]))"

definition CLClient_claim_tasks ::
  "builtins \<Rightarrow> 'n transport \<Rightarrow> executor_config \<Rightarrow> 'n wire \<Rightarrow> (exn + execution_task list) \<times> 'n wire" where
  "CLClient_claim_tasks B urlopen cfg w =
     (let payload = JDict [(''executorId'', JStr (executor_id cfg)),
                           (''capabilities'', JList (map JStr (capabilities cfg))),
                           (''maxTasks'', JInt (max_tasks cfg)),
                           (''leaseDurationMs'', JInt (lease_duration_ms cfg))]
      in case CLClient_post B urlopen cfg ''/execution-tasks/claim'' payload w of
           (Inl e, w') \<Rightarrow> (Inl e, w')
         | (Inr result, w') \<Rightarrow>
             (bind_sum (dict_get result ''tasks'' (JList [])) (\<lambda>v.
              bind_sum (py_iter v) (\<lambda>items. build_tasks items [])), w'))"

definition opt_dict :: "string \<Rightarrow> jdict option \<Rightarrow> jdict" where
  "opt_dict k d = (case d of None \<Rightarrow> [] | Some kvs \<Rightarrow> if kvs \<noteq> [] then [(k, JDict kvs)] else [])"

definition opt_str :: "string \<Rightarrow> string option \<Rightarrow> jdict" where
  "opt_str k x = (case x of None \<Rightarrow> [] | Some s \<Rightarrow> if s \<noteq> [] then [(k, JStr s)] else [])"

definition opt_list :: "string \<Rightarrow> json list \<Rightarrow> jdict" where
  "opt_list k xs = (if xs \<noteq> [] then [(k, JList xs)] else [])"

definition task_path :: "builtins \<Rightarrow> execution_task \<Rightarrow> string \<Rightarrow> string" where
  "task_path B task suffix = ''/execution-tasks/'' @ format_value B (task_id task) @ suffix"

definition CLClient_heartbeat ::
  "builtins \<Rightarrow> 'n transport \<Rightarrow> executor_config \<Rightarrow> execution_task \<Rightarrow> int \<Rightarrow> jdict option
     \<Rightarrow> 'n wire \<Rightarrow> (exn + json) \<times> 'n wire" where
  "CLClient_heartbeat B urlopen cfg task sequence progress =
     CLClient_post B urlopen cfg (task_path B task ''/heartbeat'')
       (JDict ([(''executorId'', JStr (executor_id cfg)), (''sequence'', JInt sequence),
                (''status'', JStr ''running'')] @ opt_dict ''progress'' progress))"

definition entry_payload :: "log_entry \<Rightarrow> json" where
  "entry_payload entry =
     JDict ([(''message'', JStr (message entry)), (''level'', JStr (level entry))]
            @ opt_str ''code'' (code entry)
            @ (case data entry of None \<Rightarrow> [] | Some d \<Rightarrow> [(''data'', JDict d)])
            @ opt_str ''timestamp'' (timestamp entry))"

definition CLClient_append_logs ::
  "builtins \<Rightarrow> 'n transport \<Rightarrow> executor_config \<Rightarrow> execution_task \<Rightarrow> int \<Rightarrow> log_entry list
     \<Rightarrow> 'n wire \<Rightarrow> (exn + json) \<times> 'n wire" where
  "CLClient_append_logs B urlopen cfg task sequence entries =
     CLClient_post B urlopen cfg (task_path B task ''/logs'')
       (JDict [(''executorId'', JStr (executor_id cfg)), (''sequence'', JInt sequence),
               (''entries'', JList (map entry_payload entries))])"

definition CLClient_update_status ::
  "builtins \<Rightarrow> 'n transport \<Rightarrow> executor_config \<Rightarrow> execution_task \<Rightarrow> int \<Rightarrow> string \<Rightarrow> jdict option
     \<Rightarrow> jdict option \<Rightarrow> 'n wire \<Rightarrow> (exn + json) \<times> 'n wire" where
  "CLClient_update_status B urlopen cfg task sequence status fl ext =
     CLClient_post B urlopen cfg (task_path B task ''/status'')
       (JDict ([(''executorId'', JStr (executor_id cfg)), (''sequence'', JInt sequence),
                (''status'', JStr status)] @ opt_dict ''failure'' fl @ opt_dict ''external'' ext))"

definition CLClient_complete ::
  "builtins \<Rightarrow> 'n transport \<Rightarrow> executor_config \<Rightarrow> execution_task \<Rightarrow> int \<Rightarrow> string \<Rightarrow> json list
     \<Rightarrow> json list \<Rightarrow> 'n wire \<Rightarrow> (exn + json) \<times> 'n wire" where
  "CLClient_complete B urlopen cfg task sequence fs arts meas =
     CLClient_post B urlopen cfg (task_path B task ''/complete'')
       (JDict ([(''executorId'', JStr (executor_id cfg)), (''sequence'', JInt sequence),
                (''finalStatus'', JStr fs)] @ opt_list ''artifacts'' arts
               @ opt_list ''measurements'' meas))"

text \<open>The client object the claim loop builds when none is injected: \<open>CLClient(cfg)\<close>.\<close>

definition CLClient :: "builtins \<Rightarrow> 'n transport \<Rightarrow> executor_config \<Rightarrow> 'n wire client" where
  "CLClient B urlopen cfg =
     \<lparr>claim_tasks = CLClient_claim_tasks B urlopen cfg,
      heartbeat = CLClient_heartbeat B urlopen cfg,
      append_logs = CLClient_append_logs B urlopen cfg,
      update_status = CLClient_update_status B urlopen cfg,
      complete = CLClient_complete B urlopen cfg\<rparr>"

section \<open>The pylabrobot bridge and the INTEGRA runner\<close>

text \<open>
  \<open>pylabrobot_bridge.py\<close> and \<open>runners/integra_assist.py\<close>. What the operating system and
  the interpreter provide to the runner is a record of functions of the world: the
  environment variables, the clock, \<open>time.sleep\<close>, the change of \<open>sys.path\<close>,
  \<open>importlib.import_module\<close> called for its effect, the lookup of a hook function
  (\<open>import_module\<close> followed by \<open>getattr\<close>; \<open>None\<close> when the attribute is missing or not
  callable), and \<open>subprocess.run\<close> on the split command line.
\<close>

record proc =
  returncode :: int
  stdout :: string
  stderr :: string

type_synonym 'w hook = "json \<Rightarrow> 'w \<Rightarrow> (exn + json) \<times> 'w"

record 'w platform =
  getenv :: "'w \<Rightarrow> string \<Rightarrow> string option"
  iso_now :: "'w \<Rightarrow> string"
  time_sleep :: "real \<Rightarrow> 'w \<Rightarrow> 'w"
  add_sys_path :: "string \<Rightarrow> 'w \<Rightarrow> 'w"
  import_module :: "string \<Rightarrow> 'w \<Rightarrow> exn option \<times> 'w"
  load_hook :: "string \<Rightarrow> string \<Rightarrow> 'w \<Rightarrow> (exn + 'w hook option) \<times> 'w"
  subprocess_run :: "string \<Rightarrow> json \<Rightarrow> int \<Rightarrow> 'w \<Rightarrow> (exn + proc) \<times> 'w"

definition os_getenv :: "'w platform \<Rightarrow> 'w \<Rightarrow> string \<Rightarrow> string \<Rightarrow> string" where
  "os_getenv P w name dflt = (case getenv P w name of None \<Rightarrow> dflt | Some v \<Rightarrow> v)"

text \<open>Python's truth value of a JSON value (\<open>bool(x)\<close>).\<close>

definition truthy :: "json \<Rightarrow> bool" where
  "truthy v =
     (case v of
        JNull \<Rightarrow> False
      | JBool b \<Rightarrow> b
      | JInt i \<Rightarrow> i \<noteq> 0
      | JStr s \<Rightarrow> s \<noteq> []
      | JList xs \<Rightarrow> xs \<noteq> []
      | JDict kvs \<Rightarrow> kvs \<noteq> [])"

definition ensure_pylabrobot_import :: "'w platform \<Rightarrow> 'w \<Rightarrow> exn option \<times> 'w" where
  "ensure_pylabrobot_import P w =
     (let repo_path = strip (os_getenv P w ''PYLABROBOT_REPO_PATH'' []);
          w1 = (if repo_path \<noteq> [] then add_sys_path P repo_path w else w)
      in import_module P ''pylabrobot'' w1)"

definition parse_hook_spec :: "string \<Rightarrow> exn + string \<times> string" where
  "parse_hook_spec spec =
     (if CHR '':'' \<notin> set spec then Inl (ValueError ''Hook spec must be in module:function format'')
      else
        (let module_name = strip (takeWhile (\<lambda>c. c \<noteq> CHR '':'') spec);
             func_name = strip (tl (dropWhile (\<lambda>c. c \<noteq> CHR '':'') spec))
         in if module_name = [] \<or> func_name = []
            then Inl (ValueError ''Hook spec must include module and function names'')
            else Inr (module_name, func_name)))"

definition run_hook :: "'w platform \<Rightarrow> string \<Rightarrow> json \<Rightarrow> 'w \<Rightarrow> (exn + jdict) \<times> 'w" where
  "run_hook P spec task_payload w =
     (case parse_hook_spec spec of
        Inl e \<Rightarrow> (Inl e, w)
      | Inr (module_name, func_name) \<Rightarrow>
          (case load_hook P module_name func_name w of
             (Inl e, w1) \<Rightarrow> (Inl e, w1)
           | (Inr None, w1) \<Rightarrow>
               (Inl (RuntimeError (''Hook function not found or not callable: '' @ spec)), w1)
           | (Inr (Some func), w1) \<Rightarrow>
               (case func task_payload w1 of
                  (Inl e, w2) \<Rightarrow> (Inl e, w2)
                | (Inr result, w2) \<Rightarrow>
                    (case result of
                       JDict kvs \<Rightarrow> (Inr kvs, w2)
                     | _ \<Rightarrow> (Inl (RuntimeError ''Hook return value must be a dict''), w2)))))"

definition run_command ::
  "builtins \<Rightarrow> 'w platform \<Rightarrow> string \<Rightarrow> json \<Rightarrow> 'w \<Rightarrow> (exn + jdict) \<times> 'w" where
  "run_command B P command task_payload w =
     (case py_int B (os_getenv P w ''INTEGRA_ASSIST_PYLABROBOT_TIMEOUT_S'' ''120'') of
        None \<Rightarrow> (Inl (ValueError ''invalid literal for int()''), w)
      | Some timeout_s \<Rightarrow>
          (case subprocess_run P command task_payload (max 1 timeout_s) w of
             (Inl e, w1) \<Rightarrow> (Inl e, w1)
           | (Inr pr, w1) \<Rightarrow>
               (if returncode pr \<noteq> 0
                then Inl (RuntimeError (''Command failed ('' @ str_int (returncode pr) @ ''): ''
                                         @ strip (stderr pr)))
                else
                  (let out = strip (stdout pr) in
                   if out = [] then Inl (RuntimeError ''Command returned empty stdout'')
                   else
                     (case json_loads B out of
                        None \<Rightarrow>
                          Inl (RuntimeError (''Command stdout was not valid JSON: '' @ take 300 out))
                      | Some (JDict kvs) \<Rightarrow> Inr kvs
                      | Some _ \<Rightarrow> Inl (RuntimeError ''Command JSON output must be an object''))),
                w1)))"

definition valid_final_status :: "string \<Rightarrow> bool" where
  "valid_final_status fs = (fs = ''completed'' \<or> fs = ''failed'' \<or> fs = ''canceled'')"

definition payload_get :: "jdict \<Rightarrow> string \<Rightarrow> json \<Rightarrow> json" where
  "payload_get kvs k dflt = (case map_of kvs k of None \<Rightarrow> dflt | Some v \<Rightarrow> v)"

definition opt_text :: "builtins \<Rightarrow> jdict \<Rightarrow> string \<Rightarrow> string option" where
  "opt_text B entry k =
     (case map_of entry k of
        None \<Rightarrow> None
      | Some JNull \<Rightarrow> None
      | Some v \<Rightarrow> Some (format_value B v))"

definition coerce_entry :: "builtins \<Rightarrow> jdict \<Rightarrow> log_entry" where
  "coerce_entry B entry =
     \<lparr>message = format_value B (payload_get entry ''message'' (JStr [])),
      level = format_value B (payload_get entry ''level'' (JStr ''info'')),
      code = opt_text B entry ''code'',
      data = (case payload_get entry ''data'' JNull of JDict d \<Rightarrow> Some d | _ \<Rightarrow> None),
      timestamp = opt_text B entry ''timestamp''\<rparr>"

fun coerce_logs :: "builtins \<Rightarrow> json list \<Rightarrow> log_entry list \<Rightarrow> log_entry list" where
  "coerce_logs B [] acc = acc"
| "coerce_logs B (JDict entry # entries) acc = coerce_logs B entries (acc @ [coerce_entry B entry])"
| "coerce_logs B (_ # entries) acc = coerce_logs B entries acc"

definition coerce_result :: "builtins \<Rightarrow> jdict \<Rightarrow> exn + runner_result" where
  "coerce_result B payload =
     (let fs = format_value B (payload_get payload ''final_status'' (JStr ''failed'')) in
      if \<not> valid_final_status fs
      then Inl (RuntimeError (''Invalid final_status from hook/command: '' @ fs))
      else
        (case py_iter (payload_get payload ''logs'' (JList [])) of
           Inl e \<Rightarrow> Inl e
         | Inr entries \<Rightarrow>
             Inr \<lparr>final_status = fs,
                  logs = coerce_logs B entries [],
                  artifacts = (case payload_get payload ''artifacts'' (JList []) of
                                 JList xs \<Rightarrow> xs | _ \<Rightarrow> []),
                  measurements = (case payload_get payload ''measurements'' (JList []) of
                                    JList xs \<Rightarrow> xs | _ \<Rightarrow> []),
                  failure = (case payload_get payload ''failure'' JNull of
                               JDict d \<Rightarrow> Some d | _ \<Rightarrow> None),
                  external = (case payload_get payload ''external'' JNull of
                                JDict d \<Rightarrow> Some d | _ \<Rightarrow> None)\<rparr>))"

text \<open>\<open>dataclasses.asdict(task)\<close>.\<close>

definition asdict :: "execution_task \<Rightarrow> json" where
  "asdict task =
     JDict [(''task_id'', task_id task), (''execution_run_id'', execution_run_id task),
            (''robot_plan_id'', robot_plan_id task), (''adapter_id'', adapter_id task),
            (''target_platform'', target_platform task),
            (''contract_version'', contract_version task),
            (''runtime_parameters'', runtime_parameters task),
            (''artifact_refs'', artifact_refs task),
            (''lease_expires_at'', lease_expires_at task)]"

definition coerce_outcome ::
  "builtins \<Rightarrow> (exn + jdict) \<times> 'w \<Rightarrow> (exn + runner_result) \<times> 'w" where
  "coerce_outcome B r =
     (case r of
        (Inl e, w) \<Rightarrow> (Inl e, w)
      | (Inr payload, w) \<Rightarrow> (coerce_result B payload, w))"

definition run_integra_task :: "builtins \<Rightarrow> 'w platform \<Rightarrow> 'w runner" where
  "run_integra_task B P task w =
     (case ensure_pylabrobot_import P w of
        (Some e, w1) \<Rightarrow> (Inl e, w1)
      | (None, w1) \<Rightarrow>
          (let task_payload = asdict task;
               command = strip (os_getenv P w1 ''INTEGRA_ASSIST_PYLABROBOT_COMMAND'' []);
               hook = strip (os_getenv P w1 ''INTEGRA_ASSIST_PYLABROBOT_HOOK'' [])
           in if command \<noteq> [] then coerce_outcome B (run_command B P command task_payload w1)
              else if hook \<noteq> [] then coerce_outcome B (run_hook P hook task_payload w1)
              else coerce_outcome B
                     (run_hook P ''python_executor_service.pyalab_integra_hook:run_task''
                        task_payload w1)))"

definition force_simulate :: "'w platform \<Rightarrow> execution_task \<Rightarrow> 'w \<Rightarrow> exn + bool" where
  "force_simulate P task w =
     (if os_getenv P w ''INTEGRA_ASSIST_SIMULATE'' ''1'' = ''1'' then Inr True
      else bind_sum (dict_get (runtime_parameters task) ''simulate'' JNull) (\<lambda>v. Inr (truthy v)))"

definition IntegraAssistRunner_run :: "builtins \<Rightarrow> 'w platform \<Rightarrow> 'w runner" where
  "IntegraAssistRunner_run B P task w =
     (let b = lower (strip (os_getenv P w ''INTEGRA_ASSIST_BACKEND'' ''simulate''));
          backend = (if b \<noteq> [] then b else ''simulate'')
      in case force_simulate P task w of
           Inl e \<Rightarrow> (Inl e, w)
         | Inr forced \<Rightarrow>
             if backend = ''pylabrobot'' \<and> \<not> forced
             then
               (case run_integra_task B P task w of
                  (Inr r, w1) \<Rightarrow> (Inr r, w1)
                | (Inl exc, w1) \<Rightarrow>
                    (Inr \<lparr>final_status = ''failed'',
                          logs = [\<lparr>message = ''pylabrobot execution failed: '' @ str_of_exc B exc,
                                   level = ''error'',
                                   code = Some ''PYLABROBOT_EXECUTION_FAILED'',
                                   data = None,
                                   timestamp = Some (iso_now P w1)\<rparr>],
                          artifacts = [],
                          measurements = [],
                          failure = Some [(''code'', JStr ''PYLABROBOT_EXECUTION_FAILED''),
                                          (''class'', JStr ''transient''),
                                          (''message'', JStr (str_of_exc B exc))],
                          external = None\<rparr>, w1))
             else
               (case py_int B (os_getenv P w ''INTEGRA_ASSIST_SIM_MS'' ''300'') of
                  None \<Rightarrow> (Inl (ValueError ''invalid literal for int()''), w)
                | Some sleep_ms \<Rightarrow>
                    (let w1 = time_sleep P (real_of_int (max 0 sleep_ms) / 1000) w in
                     (Inr \<lparr>final_status = ''completed'',
                           logs = [\<lparr>message = ''Simulated INTEGRA run for ''
                                               @ format_value B (robot_plan_id task),
                                    level = ''info'',
                                    code = Some ''SIMULATED_RUN'',
                                    data = Some [(''adapter'', adapter_id task),
                                                 (''taskId'', task_id task),
                                                 (''backend'', JStr backend)],
                                    timestamp = Some (iso_now P w1)\<rparr>],
                           artifacts = [JDict [(''role'', JStr ''telemetry_csv''),
                                               (''uri'', JStr (''records/artifacts/''
                                                  @ format_value B (execution_run_id task)
                                                  @ ''/telemetry.csv''))]],
                           measurements = [],
                           failure = None,
                           external = Some [(''runId'', JStr (''sim-'' @ format_value B (task_id task))),
                                            (''rawStatus'', JStr ''completed'')]\<rparr>, w1))))"

text \<open>The registry the claim loop builds when none is injected: \<open>RunnerRegistry()\<close>.\<close>

definition RunnerRegistry :: "builtins \<Rightarrow> 'w platform \<Rightarrow> 'w runner registry" where
  "RunnerRegistry B P = [''integra_assist'' \<mapsto> IntegraAssistRunner_run B P]"

section \<open>The effects of one task, named\<close>

text \<open>
  Names for the effects that \<open>_process_task\<close> and the handler of \<open>run_cycle\<close> produce for
  a task, used to state the properties below. \<open>after_run\<close> is the part of
  \<open>_process_task\<close> that follows \<open>runner.run(task)\<close>.
\<close>

definition claimed_event :: "executor_config \<Rightarrow> execution_task \<Rightarrow> effect" where
  "claimed_event cfg task =
     Log ''task_claimed''
       [(''executorId'', JStr (executor_id cfg)), (''taskId'', task_id task),
        (''executionRunId'', execution_run_id task), (''adapterId'', adapter_id task)]"

definition completed_event :: "executor_config \<Rightarrow> execution_task \<Rightarrow> runner_result \<Rightarrow> effect" where
  "completed_event cfg task r =
     Log ''task_completed''
       [(''executorId'', JStr (executor_id cfg)), (''taskId'', task_id task),
        (''executionRunId'', execution_run_id task), (''finalStatus'', JStr (final_status r))]"

definition error_event :: "(exn \<Rightarrow> string) \<Rightarrow> executor_config \<Rightarrow> execution_task \<Rightarrow> exn \<Rightarrow> effect" where
  "error_event str_exc cfg task exc =
     Log ''task_error''
       [(''executorId'', JStr (executor_id cfg)), (''taskId'', task_id task),
        (''executionRunId'', execution_run_id task), (''error'', JStr (str_exc exc))]"

definition recovery_call :: "(exn \<Rightarrow> string) \<Rightarrow> execution_task \<Rightarrow> exn \<Rightarrow> call" where
  "recovery_call str_exc task exc =
     UpdateStatus task 999999 ''failed''
       (Some [(''code'', JStr ''EXECUTOR_EXCEPTION''), (''class'', JStr ''transient''),
              (''message'', JStr (str_exc exc))])
       None"

definition first_heartbeat :: "execution_task \<Rightarrow> call" where
  "first_heartbeat task = Heartbeat task 1 (Some [(''state'', JStr ''starting'')])"

definition logs_calls :: "execution_task \<Rightarrow> runner_result \<Rightarrow> call list" where
  "logs_calls task r = (if logs r \<noteq> [] then [AppendLogs task 2 (logs r)] else [])"

definition status_seq :: "runner_result \<Rightarrow> int" where
  "status_seq r = (if logs r \<noteq> [] then 3 else 2)"

definition status_call :: "execution_task \<Rightarrow> runner_result \<Rightarrow> call" where
  "status_call task r =
     (if truthy_dict (failure r)
      then UpdateStatus task (status_seq r) ''failed'' (failure r) (external r)
      else UpdateStatus task (status_seq r) ''running'' None (external r))"

definition complete_call :: "execution_task \<Rightarrow> runner_result \<Rightarrow> call" where
  "complete_call task r =
     Complete task (status_seq r + 1) (final_status r) (artifacts r) (measurements r)"

definition after_run ::
  "executor_config \<Rightarrow> 'w client \<Rightarrow> execution_task \<Rightarrow> runner_result \<Rightarrow> (unit, 'w) action" where
  "after_run cfg client task result =
      and_then (if logs result \<noteq> []
                then and_then (report client (AppendLogs task 2 (logs result))) (\<lambda>_. return_ok 3)
                else return_ok 2) (\<lambda>seq.
      and_then (if truthy_dict (failure result)
                then report client (UpdateStatus task seq ''failed'' (failure result) (external result))
                else report client (UpdateStatus task seq ''running'' None (external result))) (\<lambda>_.
      and_then (report client (Complete task (seq + 1) (final_status result) (artifacts result)
                                 (measurements result))) (\<lambda>_.
      log_event ''task_completed''
        [(''executorId'', JStr (executor_id cfg)), (''taskId'', task_id task),
         (''executionRunId'', execution_run_id task),
         (''finalStatus'', JStr (final_status result))])))"

text \<open>
  The reporting calls of a task whose runner returned \<open>r\<close> and for which nothing raised,
  and all its effects in that case.
\<close>

definition success_calls :: "execution_task \<Rightarrow> runner_result \<Rightarrow> call list" where
  "success_calls task r =
     first_heartbeat task # logs_calls task r @ [status_call task r, complete_call task r]"

definition task_trace :: "executor_config \<Rightarrow> execution_task \<Rightarrow> runner_result \<Rightarrow> effect list" where
  "task_trace cfg task r =
     [claimed_event cfg task, Report (first_heartbeat task), RunnerRun task]
     @ map Report (logs_calls task r @ [status_call task r, complete_call task r])
     @ [completed_event cfg task r]"

text \<open>
  The success-path calls as the specification words them: the status update is
  \<open>failed\<close>, with the failure detail, if the failure field of the result is set.
\<close>

definition spec_success_calls :: "execution_task \<Rightarrow> runner_result \<Rightarrow> call list" where
  "spec_success_calls task r =
     [Heartbeat task 1 (Some [(''state'', JStr ''starting'')])]
     @ (if logs r \<noteq> [] then [AppendLogs task 2 (logs r)] else [])
     @ [if failure r \<noteq> None
        then UpdateStatus task (if logs r \<noteq> [] then 3 else 2) ''failed'' (failure r) (external r)
        else UpdateStatus task (if logs r \<noteq> [] then 3 else 2) ''running'' None (external r),
        Complete task (if logs r \<noteq> [] then 4 else 3) (final_status r) (artifacts r)
          (measurements r)]"




fun complete_statuses :: "effect list \<Rightarrow> string list" where
  "complete_statuses [] = []"
| "complete_statuses (Report (Complete _ _ fs _ _) # es) = fs # complete_statuses es"
| "complete_statuses (_ # es) = complete_statuses es"

section \<open>Concrete configurations\<close>

text \<open>
  The fixtures of \<open>tests/test_claim_loop.py\<close> (\<open>FakeClient\<close>, whose world is its flag
  \<open>claimed\<close>, \<open>FakeRunner\<close>, \<open>FakeRegistry\<close>) and variations of them: a client with a
  fixed answer to the claim and a chosen set of reporting calls that fail, runners that
  raise or return unusual results, a platform with no environment variable set, and a
  platform that selects the pylabrobot backend with a hook.
\<close>

definition test_str_exc :: "exn \<Rightarrow> string" where
  "test_str_exc e =
     (case e of
        KeyError m \<Rightarrow> [CHR 0x27] @ m @ [CHR 0x27]
      | AttributeError \<Rightarrow> ''AttributeError''
      | TypeError \<Rightarrow> ''TypeError''
      | ValueError m \<Rightarrow> m
      | JSONDecodeError \<Rightarrow> ''JSONDecodeError''
      | RuntimeError m \<Rightarrow> m
      | OtherException c m \<Rightarrow> m)"

definition test_builtins :: builtins where
  "test_builtins =
     \<lparr>str_of_exc = test_str_exc,
      py_repr = (\<lambda>v. ''<repr>''),
      json_loads = (\<lambda>s. None),
      py_int = (\<lambda>s. if s = ''300'' then Some 300 else if s = ''120'' then Some 120 else None)\<rparr>"


definition test_cfg :: executor_config where
  "test_cfg =
     \<lparr>api_base_url = ''http://localhost:3001/api'', executor_id = ''pyexec-test'',
      executor_token = [], capabilities = [''integra_assist''], max_tasks = 1,
      lease_duration_ms = 60000, poll_interval_ms = 10, run_once = True\<rparr>"

definition test_task :: execution_task where
  "test_task =
     \<lparr>task_id = JStr ''EXT-000001'', execution_run_id = JStr ''EXR-000001'',
      robot_plan_id = JStr ''RP-000001'', adapter_id = JStr ''integra_assist'',
      target_platform = JStr ''integra_assist'', contract_version = JStr ''execution-task/v1'',
      runtime_parameters = JDict [(''simulate'', JBool True)], artifact_refs = JList [],
      lease_expires_at = JNull\<rparr>"


definition ack :: json where
  "ack = JDict [(''success'', JBool True), (''accepted'', JBool True)]"

definition fake_client :: "bool client" where
  "fake_client =
     \<lparr>claim_tasks = (\<lambda>claimed. if claimed then (Inr [], True) else (Inr [test_task], True)),
      heartbeat = (\<lambda>task sequence progress w. (Inr ack, w)),
      append_logs = (\<lambda>task sequence entries w. (Inr ack, w)),
      update_status = (\<lambda>task sequence status fl ext w. (Inr ack, w)),
      complete = (\<lambda>task sequence fs arts meas w. (Inr ack, w))\<rparr>"

definition fake_result :: "execution_task \<Rightarrow> runner_result" where
  "fake_result task =
     \<lparr>final_status = ''completed'',
      logs = [\<lparr>message = ''done'', level = ''info'', code = None, data = None, timestamp = None\<rparr>],
      artifacts = [JDict [(''role'', JStr ''telemetry_csv''),
                          (''uri'', JStr (''records/artifacts/''
                             @ format_value test_builtins (execution_run_id task)
                             @ ''/telemetry.csv''))]],
      measurements = [], failure = None, external = None\<rparr>"

definition fake_runner :: "'w runner" where
  "fake_runner task w = (Inr (fake_result task), w)"

definition fake_registry :: "'w lookup" where
  "fake_registry a =
     (if a \<noteq> JStr ''integra_assist'' then Inl (KeyError (format_value test_builtins a))
      else Inr fake_runner)"

definition unreachable :: exn where
  "unreachable = OtherException ''URLError'' ''connection refused''"

definition scripted_client :: "(exn + execution_task list) \<Rightarrow> (call \<Rightarrow> bool) \<Rightarrow> 'w client" where
  "scripted_client claimed fails =
     \<lparr>claim_tasks = (\<lambda>w. (claimed, w)),
      heartbeat = (\<lambda>task sequence progress w.
        (if fails (Heartbeat task sequence progress) then Inl unreachable else Inr ack, w)),
      append_logs = (\<lambda>task sequence entries w.
        (if fails (AppendLogs task sequence entries) then Inl unreachable else Inr ack, w)),
      update_status = (\<lambda>task sequence status fl ext w.
        (if fails (UpdateStatus task sequence status fl ext) then Inl unreachable else Inr ack, w)),
      complete = (\<lambda>task sequence fs arts meas w.
        (if fails (Complete task sequence fs arts meas) then Inl unreachable else Inr ack, w))\<rparr>"


definition bogus_runner :: "'w runner" where
  "bogus_runner task w =
     (Inr \<lparr>final_status = ''bogus'', logs = [], artifacts = [], measurements = [],
           failure = None, external = None\<rparr>, w)"

text \<open>A runner that hands the answer of a hook, \<open>{"final_status": "failed", "failure": {}}\<close>,
  to the bridge's \<open>_coerce_result\<close>.\<close>

definition empty_failure_payload :: jdict where
  "empty_failure_payload = [(''final_status'', JStr ''failed''), (''failure'', JDict [])]"

definition empty_failure_runner :: "'w runner" where
  "empty_failure_runner task w = (coerce_result test_builtins empty_failure_payload, w)"

definition sim_platform :: "unit platform" where
  "sim_platform =
     \<lparr>getenv = (\<lambda>w name. None),
      iso_now = (\<lambda>w. ''2026-01-01T00:00:00+00:00''),
      time_sleep = (\<lambda>d w. w),
      add_sys_path = (\<lambda>p w. w),
      import_module = (\<lambda>m w. (None, w)),
      load_hook = (\<lambda>m f w. (Inr None, w)),
      subprocess_run = (\<lambda>c p t w. (Inl (OtherException ''FileNotFoundError'' c), w))\<rparr>"

definition bogus_hook :: "unit hook" where
  "bogus_hook payload w = (Inr (JDict [(''final_status'', JStr ''bogus'')]), w)"

definition hook_platform :: "unit platform" where
  "hook_platform =
     sim_platform
       \<lparr>getenv := (\<lambda>w name.
           if name = ''INTEGRA_ASSIST_BACKEND'' then Some ''pylabrobot''
           else if name = ''INTEGRA_ASSIST_SIMULATE'' then Some ''0''
           else if name = ''INTEGRA_ASSIST_PYLABROBOT_HOOK'' then Some ''hooks:bogus''
           else None),
        load_hook := (\<lambda>m f w. (Inr (Some bogus_hook), w))\<rparr>"

definition canned_transport :: "http_result \<Rightarrow> 'n transport" where
  "canned_transport res req n = (res, n)"

definition init :: "'w \<Rightarrow> 'w state" where
  "init w = \<lparr>trace = [], world = w\<rparr>"

section \<open>Further names used in the statements\<close>


text \<open>A registry all of whose runners return only results with a valid final status.\<close>

definition valid_runners :: "'w lookup \<Rightarrow> bool" where
  "valid_runners registry =
     (\<forall>a runner task w r w'. registry a = Inr runner \<longrightarrow> runner task w = (Inr r, w')
        \<longrightarrow> valid_final_status (final_status r))"

text \<open>The request that \<open>claim_tasks\<close> hands to the transport.\<close>

definition claim_request :: "executor_config \<Rightarrow> request" where
  "claim_request cfg =
     \<lparr>url = api_base_url cfg @ ''/execution-tasks/claim'',
      body = JDict [(''executorId'', JStr (executor_id cfg)),
                    (''capabilities'', JList (map JStr (capabilities cfg))),
                    (''maxTasks'', JInt (max_tasks cfg)),
                    (''leaseDurationMs'', JInt (lease_duration_ms cfg))],
      http_method = ''POST'', headers = CLClient_headers cfg, timeout = 30\<rparr>"




text \<open>More concrete values: clients that never or always fail, registries for the runners
  above, and the results those runners return.\<close>

definition reliable_client :: "execution_task list \<Rightarrow> 'w client" where
  "reliable_client tasks = scripted_client (Inr tasks) (\<lambda>c. False)"


definition failing_claim_client :: "unit client" where
  "failing_claim_client = scripted_client (Inl unreachable) (\<lambda>c. False)"

definition empty_failure_registry :: "'w lookup" where
  "empty_failure_registry a = Inr empty_failure_runner"

definition bogus_registry :: "'w lookup" where
  "bogus_registry a = Inr bogus_runner"


definition plain_task :: execution_task where
  "plain_task = test_task\<lparr>runtime_parameters := JDict []\<rparr>"

definition empty_failure_result :: runner_result where
  "empty_failure_result =
     \<lparr>final_status = ''failed'', logs = [], artifacts = [], measurements = [],
      failure = Some [], external = None\<rparr>"

definition bogus_result :: runner_result where
  "bogus_result =
     \<lparr>final_status = ''bogus'', logs = [], artifacts = [], measurements = [],
      failure = None, external = None\<rparr>"

definition hook_failure_result :: runner_result where
  "hook_failure_result =
     \<lparr>final_status = ''failed'',
      logs = [\<lparr>message = ''pylabrobot execution failed: Invalid final_status from hook/command: bogus'',
               level = ''error'', code = Some ''PYLABROBOT_EXECUTION_FAILED'', data = None,
               timestamp = Some ''2026-01-01T00:00:00+00:00''\<rparr>],
      artifacts = [], measurements = [],
      failure = Some [(''code'', JStr ''PYLABROBOT_EXECUTION_FAILED''), (''class'', JStr ''transient''),
                      (''message'', JStr ''Invalid final_status from hook/command: bogus'')],
      external = None\<rparr>"



section \<open>Properties of the registry\<close>








section \<open>Properties of the claim loop\<close>

lemma reports_append: "reports (xs @ ys) = reports xs @ reports ys"
  by (induction xs rule: reports.induct) simp_all

lemma reports_map_Report: "reports (map Report cs) = cs"
  by (induction cs) simp_all

lemma and_then_cases:
  assumes "and_then m f s = (res, s')"
  obtains (raised) e where "m s = (Inl e, s')" "res = Inl e"
        | (continued) x s1 where "m s = (Inr x, s1)" "f x s1 = (res, s')"
  using assms by (auto simp: and_then_def split: prod.splits sum.splits)

lemma reportE:
  assumes "report client c s = (r, s')"
  obtains w' where "perform client c (world s) = (r, w')" "trace s' = trace s @ [Report c]" "world s' = w'"
  using assms by (auto simp: report_def split: prod.splits)

lemma run_runnerE:
  assumes "run_runner runner task s = (r, s')"
  obtains w' where "runner task (world s) = (r, w')" "trace s' = trace s @ [RunnerRun task]" "world s' = w'"
  using assms by (auto simp: run_runner_def split: prod.splits)

lemma process_task_unfold:
  "process_task cfg client registry task =
     and_then (log_event ''task_claimed''
                  [(''executorId'', JStr (executor_id cfg)), (''taskId'', task_id task),
                   (''executionRunId'', execution_run_id task), (''adapterId'', adapter_id task)]) (\<lambda>_.
     and_then (report client (first_heartbeat task)) (\<lambda>_.
     and_then (lookup_runner registry (adapter_id task)) (\<lambda>runner.
     and_then (run_runner runner task) (\<lambda>result. after_run cfg client task result))))"
  unfolding process_task_def after_run_def Let_def first_heartbeat_def
  by (simp cong: if_cong)

lemma logs_step:
  assumes "(if logs r \<noteq> []
            then and_then (report client (AppendLogs task 2 (logs r))) (\<lambda>_. return_ok 3)
            else return_ok 2) s = (res, s')"
  shows "(res = Inr (status_seq r) \<and> trace s' = trace s @ map Report (logs_calls task r)) \<or>
         ((\<exists>e. res = Inl e) \<and> logs r \<noteq> [] \<and> trace s' = trace s @ map Report (logs_calls task r))"
  using assms
  by (auto simp: return_ok_def logs_calls_def status_seq_def split: if_splits
      elim!: and_then_cases reportE)

lemma status_step:
  assumes "(if truthy_dict (failure r)
            then report client (UpdateStatus task (status_seq r) ''failed'' (failure r) (external r))
            else report client (UpdateStatus task (status_seq r) ''running'' None (external r))) s = (res, s')"
  shows "trace s' = trace s @ [Report (status_call task r)]"
  using assms by (auto simp: status_call_def split: if_splits elim!: reportE)

lemma after_run_cases:
  assumes "after_run cfg client task r s = (res, s')"
  shows "(\<exists>e. res = Inl e \<and> logs r \<noteq> [] \<and> trace s' = trace s @ map Report (logs_calls task r)) \<or>
         (\<exists>e. res = Inl e \<and> trace s' = trace s @ map Report (logs_calls task r @ [status_call task r])) \<or>
         (\<exists>e. res = Inl e \<and>
            trace s' = trace s @ map Report (logs_calls task r @ [status_call task r, complete_call task r])) \<or>
         (res = Inr () \<and>
            trace s' = trace s @ map Report (logs_calls task r @ [status_call task r, complete_call task r])
                         @ [completed_event cfg task r])"
  using assms unfolding after_run_def
proof (cases rule: and_then_cases)
  case (raised e)
  from logs_step[OF raised(1)] raised(2) show ?thesis by auto
next
  case (continued n s1)
  from logs_step[OF continued(1)] have n: "n = status_seq r"
    and t1: "trace s1 = trace s @ map Report (logs_calls task r)" by auto
  from continued(2) show ?thesis
  proof (cases rule: and_then_cases)
    case (raised e)
    from status_step[OF raised(1)[unfolded n]] raised(2) t1 show ?thesis by auto
  next
    case (continued b s2)
    from status_step[OF continued(1)[unfolded n]]
    have t2: "trace s2 = trace s1 @ [Report (status_call task r)]" .
    from continued(2) show ?thesis
    proof (cases rule: and_then_cases)
      case (raised e)
      then show ?thesis using t1 t2 by (auto simp: n complete_call_def elim!: reportE)
    next
      case (continued c s3)
      then show ?thesis using t1 t2
        by (auto simp: n complete_call_def completed_event_def log_event_def emit_def elim!: reportE)
    qed
  qed
qed

lemma length_task_trace: "length (task_trace cfg task r) = 6 + length (logs_calls task r)"
  by (simp add: task_trace_def)

lemma take2_task_trace:
  "take 2 (task_trace cfg task r) = [claimed_event cfg task, Report (first_heartbeat task)]"
  by (simp add: task_trace_def)

lemma take_task_trace_logs:
  "take (3 + length (logs_calls task r)) (task_trace cfg task r) =
     [claimed_event cfg task, Report (first_heartbeat task), RunnerRun task]
     @ map Report (logs_calls task r)"
  by (simp add: task_trace_def logs_calls_def)

lemma take_task_trace_status:
  "take (4 + length (logs_calls task r)) (task_trace cfg task r) =
     [claimed_event cfg task, Report (first_heartbeat task), RunnerRun task]
     @ map Report (logs_calls task r @ [status_call task r])"
  by (simp add: task_trace_def logs_calls_def)

lemma take_task_trace_complete:
  "take (5 + length (logs_calls task r)) (task_trace cfg task r) =
     [claimed_event cfg task, Report (first_heartbeat task), RunnerRun task]
     @ map Report (logs_calls task r @ [status_call task r, complete_call task r])"
  by (simp add: task_trace_def logs_calls_def)

text \<open>Every run of \<open>process_task\<close>, by outcome.\<close>

lemma process_task_cases:
  assumes "process_task cfg client registry task s = (res, s')"
  shows "(res = Inr () \<and>
            (\<exists>runner r w1 w2. registry (adapter_id task) = Inr runner \<and> runner task w1 = (Inr r, w2) \<and>
               trace s' = trace s @ task_trace cfg task r)) \<or>
         (\<exists>e r k. res = Inl e \<and> 2 \<le> k \<and> k < length (task_trace cfg task r) \<and>
            trace s' = trace s @ take k (task_trace cfg task r) \<and>
            (3 < k \<longrightarrow> (\<exists>runner w1 w2. registry (adapter_id task) = Inr runner \<and>
                                    runner task w1 = (Inr r, w2))))"
proof -
  let ?c = "claimed_event cfg task" and ?h = "Report (first_heartbeat task)"
  have early: "?thesis" if "res = Inl e" "trace s' = trace s @ [?c, ?h]" for e
  proof -
    have "2 < length (task_trace cfg task undefined)" by (simp add: length_task_trace)
    with that show ?thesis
      by (intro disjI2 exI[of _ e] exI[of _ undefined] exI[of _ 2]) (simp add: take2_task_trace)
  qed
  from assms[unfolded process_task_unfold] show ?thesis
  proof (cases rule: and_then_cases)
    case (raised e)
    then show ?thesis by (simp add: log_event_def)
  next
    case (continued a s1)
    then have t1: "trace s1 = trace s @ [?c]"
      by (auto simp: log_event_def emit_def claimed_event_def)
    from continued(2) show ?thesis
    proof (cases rule: and_then_cases)
      case (raised e)
      show ?thesis
        by (rule early[OF raised(2)]) (use raised(1) t1 in \<open>auto elim!: reportE\<close>)
    next
      case (continued b s2)
      then have t2: "trace s2 = trace s @ [?c, ?h]" using t1 by (auto elim!: reportE)
      from continued(2) show ?thesis
      proof (cases rule: and_then_cases)
        case (raised e)
        show ?thesis
          by (rule early[OF raised(2)]) (use raised(1) t2 in \<open>auto simp: lookup_runner_def\<close>)
      next
        case (continued runner s3)
        then have reg: "registry (adapter_id task) = Inr runner" and s3: "s3 = s2"
          by (simp_all add: lookup_runner_def)
        from continued(2) show ?thesis
        proof (cases rule: and_then_cases)
          case (raised e)
          then have "trace s' = trace s @ [?c, ?h, RunnerRun task]"
            using t2 s3 by (auto elim!: run_runnerE)
          moreover have "take 3 (task_trace cfg task undefined) = [?c, ?h, RunnerRun task]"
            by (simp add: task_trace_def)
          ultimately show ?thesis using raised(2)
            by (intro disjI2 exI[of _ e] exI[of _ undefined] exI[of _ 3])
               (simp add: length_task_trace)
        next
          case (continued r s4)
          then obtain w2 where run: "runner task (world s3) = (Inr r, w2)"
            and t4: "trace s4 = trace s @ [?c, ?h, RunnerRun task]"
            using t2 s3 by (auto elim!: run_runnerE)
          have prov: "\<exists>runner w1 w2. registry (adapter_id task) = Inr runner \<and> runner task w1 = (Inr r, w2)"
            using reg run by blast
          let ?n = "length (logs_calls task r)"
          from after_run_cases[OF continued(2)] show ?thesis
          proof (elim disjE exE conjE)
            fix e assume "res = Inl e" "logs r \<noteq> []"
              "trace s' = trace s4 @ map Report (logs_calls task r)"
            then show ?thesis using t4 prov
              by (intro disjI2 exI[of _ e] exI[of _ r] exI[of _ "3 + ?n"])
                 (simp add: length_task_trace take_task_trace_logs)
          next
            fix e assume "res = Inl e"
              "trace s' = trace s4 @ map Report (logs_calls task r @ [status_call task r])"
            then show ?thesis using t4 prov
              by (intro disjI2 exI[of _ e] exI[of _ r] exI[of _ "4 + ?n"])
                 (simp add: length_task_trace take_task_trace_status)
          next
            fix e assume "res = Inl e"
              "trace s' = trace s4 @ map Report (logs_calls task r @ [status_call task r, complete_call task r])"
            then show ?thesis using t4 prov
              by (intro disjI2 exI[of _ e] exI[of _ r] exI[of _ "5 + ?n"])
                 (simp add: length_task_trace take_task_trace_complete)
          next
            assume "res = Inr ()"
              "trace s' = trace s4 @ map Report (logs_calls task r @ [status_call task r, complete_call task r])
                         @ [completed_event cfg task r]"
            then show ?thesis using t4 prov
              by (intro disjI1) (auto simp: task_trace_def)
          qed
        qed
      qed
    qed
  qed
qed



lemma handle_task_raised:
  assumes "process_task cfg client registry task s = (Inl exc, s1)"
  shows "\<exists>s2. handle_task str_exc cfg client registry task s = (False, s2) \<and>
           trace s2 = trace s1 @ [error_event str_exc cfg task exc,
                                  Report (recovery_call str_exc task exc)] \<and>
           world s2 = snd (perform client (recovery_call str_exc task exc) (world s1))"
  using assms
  by (simp add: handle_task_def Let_def log_event_def emit_def report_def error_event_def
      recovery_call_def split: prod.splits)

lemma handle_task_returned:
  assumes "process_task cfg client registry task s = (Inr u, s1)"
  shows "handle_task str_exc cfg client registry task s = (True, s1)"
  using assms by (simp add: handle_task_def)




lemma run_cycle_claimed:
  assumes "claim_tasks client (world s) = (Inr tasks, w0)"
  shows "run_cycle str_exc cfg client registry s =
           (if tasks = []
            then (Inr 0, \<lparr>trace = trace s @ [ClaimTasks, Log ''idle'' [(''executorId'', JStr (executor_id cfg))]],
                          world = w0\<rparr>)
            else (case run_tasks str_exc cfg client registry tasks 0
                         \<lparr>trace = trace s @ [ClaimTasks], world = w0\<rparr> of
                    (processed, s') \<Rightarrow> (Inr processed, s')))"
  using assms
  by (simp add: run_cycle_def and_then_def do_claim_def log_event_def emit_def return_ok_def)

lemma run_cycle_raised:
  assumes "claim_tasks client (world s) = (Inl e, w0)"
  shows "run_cycle str_exc cfg client registry s = (Inl e, \<lparr>trace = trace s @ [ClaimTasks], world = w0\<rparr>)"
  using assms by (simp add: run_cycle_def and_then_def do_claim_def)

section \<open>Effects of the loop, and final statuses\<close>










lemma complete_statuses_append:
  "complete_statuses (xs @ ys) = complete_statuses xs @ complete_statuses ys"
  by (induction xs rule: complete_statuses.induct) simp_all

lemma set_complete_statuses:
  "set (complete_statuses xs) = {fs. \<exists>t n a m. Report (Complete t n fs a m) \<in> set xs}"
  by (induction xs rule: complete_statuses.induct) auto

lemma complete_in_task_trace:
  assumes "Report (Complete t n fs a m) \<in> set (take k (task_trace cfg task r))"
  shows "fs = final_status r \<and> 3 < k"
proof -
  have "3 < k"
  proof (rule ccontr)
    assume "\<not> 3 < k"
    then have "take k ([claimed_event cfg task, Report (first_heartbeat task), RunnerRun task]
                       @ map Report (logs_calls task r @ [status_call task r, complete_call task r])
                       @ [completed_event cfg task r])
                 = take k [claimed_event cfg task, Report (first_heartbeat task), RunnerRun task]"
      by (subst take_append) simp
    then have "take k (task_trace cfg task r)
                 = take k [claimed_event cfg task, Report (first_heartbeat task), RunnerRun task]"
      by (simp only: task_trace_def)
    with assms have "Report (Complete t n fs a m)
        \<in> set [claimed_event cfg task, Report (first_heartbeat task), RunnerRun task]"
      by (auto dest: in_set_takeD)
    then show False by (simp add: claimed_event_def first_heartbeat_def)
  qed
  moreover from assms have "Report (Complete t n fs a m) \<in> set (task_trace cfg task r)"
    by (rule in_set_takeD)
  then have "fs = final_status r"
    by (auto simp: task_trace_def claimed_event_def first_heartbeat_def logs_calls_def
        status_call_def complete_call_def completed_event_def split: if_splits)
  ultimately show ?thesis by simp
qed

lemma process_task_statuses:
  assumes "valid_runners registry" and "process_task cfg client registry task s = (res, s')"
  shows "\<exists>es. trace s' = trace s @ es \<and> list_all valid_final_status (complete_statuses es)"
proof -
  from process_task_cases[OF assms(2)] show ?thesis
  proof (elim disjE conjE exE)
    fix runner r w1 w2
    assume "registry (adapter_id task) = Inr runner" "runner task w1 = (Inr r, w2)"
      and t: "trace s' = trace s @ task_trace cfg task r"
    then have v: "valid_final_status (final_status r)"
      using assms(1) unfolding valid_runners_def by blast
    have "set (complete_statuses (task_trace cfg task r)) \<subseteq> {final_status r}"
      using complete_in_task_trace[of _ _ _ _ _ "length (task_trace cfg task r)" cfg task r]
      by (auto simp: set_complete_statuses)
    with v t show ?thesis by (auto simp: list_all_iff)
  next
    fix e r k
    assume t: "trace s' = trace s @ take k (task_trace cfg task r)"
      and p: "3 < k \<longrightarrow> (\<exists>runner w1 w2. registry (adapter_id task) = Inr runner \<and>
                                   runner task w1 = (Inr r, w2))"
    have "valid_final_status fs" if "fs \<in> set (complete_statuses (take k (task_trace cfg task r)))" for fs
    proof -
      from that obtain t' n a m where
        "Report (Complete t' n fs a m) \<in> set (take k (task_trace cfg task r))"
        by (auto simp: set_complete_statuses)
      from complete_in_task_trace[OF this] p assms(1) show ?thesis
        unfolding valid_runners_def by blast
    qed
    with t show ?thesis by (auto simp: list_all_iff)
  qed
qed

lemma handle_task_statuses:
  assumes "valid_runners registry" and "handle_task str_exc cfg client registry task s = (ok, s')"
  shows "\<exists>es. trace s' = trace s @ es \<and> list_all valid_final_status (complete_statuses es)"
proof -
  obtain res s1 where p: "process_task cfg client registry task s = (res, s1)"
    by (cases "process_task cfg client registry task s")
  from process_task_statuses[OF assms(1) p] obtain es where
    es: "trace s1 = trace s @ es" "list_all valid_final_status (complete_statuses es)" by blast
  show ?thesis
  proof (cases res)
    case (Inr u)
    with p assms(2) es show ?thesis by (auto simp: handle_task_returned)
  next
    case (Inl exc)
    from handle_task_raised[OF p[unfolded Inl], of str_exc] assms(2)
    have "trace s' = trace s @ (es @ [error_event str_exc cfg task exc,
                                      Report (recovery_call str_exc task exc)])"
      using es by auto
    moreover have "list_all valid_final_status
        (complete_statuses (es @ [error_event str_exc cfg task exc,
                                  Report (recovery_call str_exc task exc)]))"
      using es(2) by (simp add: complete_statuses_append error_event_def recovery_call_def)
    ultimately show ?thesis by blast
  qed
qed

lemma run_tasks_statuses:
  assumes "valid_runners registry"
    and "run_tasks str_exc cfg client registry tasks processed s = (n, s')"
  shows "\<exists>es. trace s' = trace s @ es \<and> list_all valid_final_status (complete_statuses es)"
  using assms(2)
proof (induction tasks arbitrary: processed s)
  case Nil
  then show ?case by simp
next
  case (Cons task tasks)
  obtain ok s1 where h: "handle_task str_exc cfg client registry task s = (ok, s1)"
    by (cases "handle_task str_exc cfg client registry task s")
  from handle_task_statuses[OF assms(1) h] obtain es1 where
    es1: "trace s1 = trace s @ es1" "list_all valid_final_status (complete_statuses es1)" by blast
  from Cons.prems h
  have "run_tasks str_exc cfg client registry tasks (if ok then processed + 1 else processed) s1 = (n, s')"
    by simp
  from Cons.IH[OF this] obtain es where
    es: "trace s' = trace s1 @ es" "list_all valid_final_status (complete_statuses es)" by blast
  show ?case
    by (intro exI[of _ "es1 @ es"]) (use es1 es in \<open>simp add: complete_statuses_append\<close>)
qed

lemma run_cycle_statuses:
  assumes "valid_runners registry"
  shows "list_all valid_final_status
           (complete_statuses (trace (snd (run_cycle str_exc cfg client registry (init w)))))"
proof -
  obtain cr w0 where c: "claim_tasks client w = (cr, w0)"
    by (cases "claim_tasks client w")
  show ?thesis
  proof (cases cr)
    case (Inl e)
    with c show ?thesis by (simp add: run_cycle_raised init_def)
  next
    case (Inr tasks)
    obtain n s1 where r: "run_tasks str_exc cfg client registry tasks 0
                               \<lparr>trace = [ClaimTasks], world = w0\<rparr> = (n, s1)"
      by (cases "run_tasks str_exc cfg client registry tasks 0 \<lparr>trace = [ClaimTasks], world = w0\<rparr>")
    from run_tasks_statuses[OF assms r] c Inr r show ?thesis
      by (auto simp: run_cycle_claimed init_def complete_statuses_append)
  qed
qed

section \<open>Properties of the bridge and of the client\<close>

lemma coerce_result_valid:
  assumes "coerce_result B payload = Inr r"
  shows "valid_final_status (final_status r)"
  using assms
  by (auto simp: coerce_result_def Let_def split: if_splits sum.splits)

lemma coerce_result_invalid:
  assumes "\<not> valid_final_status (format_value B (payload_get payload ''final_status'' (JStr ''failed'')))"
  shows "coerce_result B payload =
           Inl (RuntimeError (''Invalid final_status from hook/command: ''
                  @ format_value B (payload_get payload ''final_status'' (JStr ''failed''))))"
  using assms by (simp add: coerce_result_def Let_def)

lemma coerce_outcome_valid:
  assumes "coerce_outcome B x = (Inr r, w')"
  shows "valid_final_status (final_status r)"
  using assms
  by (auto simp: coerce_outcome_def coerce_result_valid split: prod.splits sum.splits)

lemma run_integra_task_valid:
  assumes "run_integra_task B P task w = (Inr r, w')"
  shows "valid_final_status (final_status r)"
  using assms
  by (auto simp: run_integra_task_def Let_def coerce_outcome_valid
      split: prod.splits option.splits if_splits)

lemma IntegraAssistRunner_run_valid:
  assumes "IntegraAssistRunner_run B P task w = (Inr r, w')"
  shows "valid_final_status (final_status r)"
proof -
  consider (bridge) "run_integra_task B P task w = (Inr r, w')"
    | (failed) "final_status r = ''failed''"
    | (simulated) "final_status r = ''completed''"
    using assms
    by (auto simp: IntegraAssistRunner_run_def Let_def
        split: sum.splits prod.splits option.splits if_splits)
  then show ?thesis
  proof cases
    case bridge
    then show ?thesis by (rule run_integra_task_valid)
  qed (simp_all add: valid_final_status_def)
qed

lemma registry_of_default:
  assumes "registry_of (RunnerRegistry B P) a = Inr runner"
  shows "runner = IntegraAssistRunner_run B P"
  using assms
  by (auto simp: registry_of_def RunnerRegistry_get_def RunnerRegistry_def Let_def
      split: json.splits if_splits)

lemma valid_runners_default: "valid_runners (registry_of (RunnerRegistry B P))"
  unfolding valid_runners_def
proof (intro allI impI)
  fix a runner task w r w'
  assume reg: "registry_of (RunnerRegistry B P) a = Inr runner" and run: "runner task w = (Inr r, w')"
  from reg have "runner = IntegraAssistRunner_run B P" by (rule registry_of_default)
  with run show "valid_final_status (final_status r)"
    by (simp add: IntegraAssistRunner_run_valid)
qed

lemma post_sent:
  "\<exists>req. sent (snd (CLClient_post B urlopen cfg path payload w)) = sent w @ [req]"
  by (simp add: CLClient_post_def Let_def split: prod.splits)

lemma perform_sent:
  "\<exists>req. sent (snd (perform (CLClient B urlopen cfg) c w)) = sent w @ [req]"
  by (cases c)
     (simp_all add: perform_def CLClient_def CLClient_heartbeat_def CLClient_append_logs_def
        CLClient_update_status_def CLClient_complete_def post_sent)

lemma claim_tasks_sent:
  "sent (snd (CLClient_claim_tasks B urlopen cfg w)) = sent w @ [claim_request cfg]"
  by (simp add: CLClient_claim_tasks_def CLClient_post_def Let_def claim_request_def
      split: prod.splits sum.splits http_result.splits option.splits)

lemma claim_tasks_http_error:
  assumes "urlopen (claim_request cfg) (net w) = (HTTPError status detail, n')"
  shows "CLClient_claim_tasks B urlopen cfg w =
           (Inl (RuntimeError (''HTTP '' @ str_int status @ '' /execution-tasks/claim: '' @ detail)),
            \<lparr>sent = sent w @ [claim_request cfg], net = n'\<rparr>)"
  using assms
  by (simp add: CLClient_claim_tasks_def CLClient_post_def Let_def claim_request_def)

lemma claim_tasks_empty_body:
  assumes "urlopen (claim_request cfg) (net w) = (Response [], n')"
  shows "CLClient_claim_tasks B urlopen cfg w =
           (Inr [], \<lparr>sent = sent w @ [claim_request cfg], net = n'\<rparr>)"
  using assms
  by (simp add: CLClient_claim_tasks_def CLClient_post_def Let_def claim_request_def
      bind_sum_def dict_get_def py_iter_def)

lemma claim_tasks_decoded:
  assumes "urlopen (claim_request cfg) (net w) = (Response b, n')" and "b \<noteq> []"
    and "json_loads B b = Some result"
  shows "CLClient_claim_tasks B urlopen cfg w =
           (bind_sum (dict_get result ''tasks'' (JList [])) (\<lambda>v.
            bind_sum (py_iter v) (\<lambda>items. build_tasks items [])),
            \<lparr>sent = sent w @ [claim_request cfg], net = n'\<rparr>)"
  using assms
  by (simp add: CLClient_claim_tasks_def CLClient_post_def Let_def claim_request_def)





section \<open>The claims\<close>

text \<open>The definitions of the claim loop and of the string operations, for evaluating
  concrete runs.\<close>

lemmas loop_defs =
  process_task_def handle_task_def run_cycle_def do_claim_def and_then_def return_ok_def
  log_event_def emit_def report_def perform_def lookup_runner_def run_runner_def Let_def
  truthy_dict_def

lemmas string_defs =
  registry_key_def strip_def lower_def lower_char_def is_space_def is_upper_def
  differ_only_in_case_def case_variant_def

subsection \<open>C1: the calls of the success path\<close>

text \<open>
  C1. When \<open>_process_task\<close> returns without raising, the runner was resolved and returned
  a result \<open>r\<close>, and the reporting calls issued for the task are exactly: the heartbeat with
  sequence 1; then \<open>append_logs\<close> with sequence 2 if and only if \<open>r.logs\<close> is non-empty;
  then \<open>update_status\<close>, with status \<open>failed\<close> and the failure detail if \<open>r.failure\<close> is
  a non-empty dictionary, and with status \<open>running\<close> and no failure detail otherwise
  (\<open>r.failure\<close> absent or empty); then \<open>complete\<close> with the final status, artifacts and
  measurements of \<open>r\<close>. Their sequence numbers are 1, 2, 3, ... without gaps, and \<open>complete\<close>
  carries the last one.
\<close>

theorem success_path_calls:
  assumes "process_task cfg client registry task s = (Inr u, s')"
  shows "\<exists>runner r w1 w2.
           registry (adapter_id task) = Inr runner \<and> runner task w1 = (Inr r, w2) \<and>
           reports (drop (length (trace s)) (trace s')) =
             [Heartbeat task 1 (Some [(''state'', JStr ''starting'')])]
             @ (if logs r \<noteq> [] then [AppendLogs task 2 (logs r)] else [])
             @ [if truthy_dict (failure r)
                then UpdateStatus task (if logs r \<noteq> [] then 3 else 2) ''failed'' (failure r) (external r)
                else UpdateStatus task (if logs r \<noteq> [] then 3 else 2) ''running'' None (external r),
                Complete task (if logs r \<noteq> [] then 4 else 3) (final_status r) (artifacts r)
                  (measurements r)] \<and>
           map call_sequence (reports (drop (length (trace s)) (trace s'))) =
             map int [1..<Suc (length (reports (drop (length (trace s)) (trace s'))))]"
proof -
  from process_task_cases[OF assms] obtain runner r w1 w2 where
    reg: "registry (adapter_id task) = Inr runner" and run: "runner task w1 = (Inr r, w2)"
    and t: "trace s' = trace s @ task_trace cfg task r" by auto
  let ?new = "reports (drop (length (trace s)) (trace s'))"
  have new: "?new = success_calls task r"
    by (simp add: t task_trace_def success_calls_def claimed_event_def completed_event_def
        reports_append reports_map_Report)
  have calls: "?new =
             [Heartbeat task 1 (Some [(''state'', JStr ''starting'')])]
             @ (if logs r \<noteq> [] then [AppendLogs task 2 (logs r)] else [])
             @ [if truthy_dict (failure r)
                then UpdateStatus task (if logs r \<noteq> [] then 3 else 2) ''failed'' (failure r) (external r)
                else UpdateStatus task (if logs r \<noteq> [] then 3 else 2) ''running'' None (external r),
                Complete task (if logs r \<noteq> [] then 4 else 3) (final_status r) (artifacts r)
                  (measurements r)]"
    unfolding new
    by (simp add: success_calls_def first_heartbeat_def logs_calls_def status_call_def
        complete_call_def status_seq_def)
  have seqs: "map call_sequence ?new = map int [1..<Suc (length ?new)]"
    unfolding new
    by (simp add: success_calls_def first_heartbeat_def logs_calls_def status_call_def
        complete_call_def status_seq_def upt_rec)
  from reg run calls seqs show ?thesis by blast
qed

text \<open>The run of \<open>tests/test_claim_loop.py\<close>: heartbeat, logs, status, complete.\<close>

theorem success_path_calls_witness:
  "process_task test_cfg fake_client fake_registry test_task (init False) =
     (Inr (), \<lparr>trace = task_trace test_cfg test_task (fake_result test_task), world = False\<rparr>) \<and>
   reports (task_trace test_cfg test_task (fake_result test_task)) =
     [Heartbeat test_task 1 (Some [(''state'', JStr ''starting'')]),
      AppendLogs test_task 2 (logs (fake_result test_task)),
      UpdateStatus test_task 3 ''running'' None None,
      Complete test_task 4 ''completed'' (artifacts (fake_result test_task)) []] \<and>
   map call_sequence (reports (task_trace test_cfg test_task (fake_result test_task))) = [1, 2, 3, 4]"
proof -
  have run: "process_task test_cfg fake_client fake_registry test_task (init False) =
     (Inr (), \<lparr>trace = task_trace test_cfg test_task (fake_result test_task), world = False\<rparr>)"
    by (simp add: loop_defs init_def fake_client_def fake_registry_def fake_runner_def task_trace_def
        claimed_event_def completed_event_def first_heartbeat_def logs_calls_def status_call_def
        complete_call_def status_seq_def fake_result_def test_task_def)
  have calls: "reports (task_trace test_cfg test_task (fake_result test_task)) =
     [Heartbeat test_task 1 (Some [(''state'', JStr ''starting'')]),
      AppendLogs test_task 2 (logs (fake_result test_task)),
      UpdateStatus test_task 3 ''running'' None None,
      Complete test_task 4 ''completed'' (artifacts (fake_result test_task)) []]"
    by (simp add: task_trace_def claimed_event_def completed_event_def first_heartbeat_def
        logs_calls_def status_call_def complete_call_def status_seq_def fake_result_def
        truthy_dict_def)
  from success_path_calls[OF run]
  have "map call_sequence (reports (task_trace test_cfg test_task (fake_result test_task))) =
          map int [1..<Suc (length (reports (task_trace test_cfg test_task (fake_result test_task))))]"
    by (elim exE conjE) (simp add: init_def)
  then have "map call_sequence (reports (task_trace test_cfg test_task (fake_result test_task)))
               = [1, 2, 3, 4]"
    by (simp add: calls upt_rec)
  with run calls show ?thesis by (intro conjI)
qed

text \<open>
  As worded, C1 sends status \<open>failed\<close> whenever the failure field is set. A hook that
  answers \<open>{"final_status": "failed", "failure": {}}\<close> yields, through \<open>_coerce_result\<close>, a
  result whose failure field is set to the empty dictionary; \<open>if result.failure:\<close> is then
  false, and the status update is \<open>running\<close>.
\<close>

theorem success_path_calls_counterexample:
  "empty_failure_runner test_task () = (Inr empty_failure_result, ()) \<and>
   failure empty_failure_result = Some [] \<and>
   fst (process_task test_cfg (reliable_client []) empty_failure_registry test_task (init ())) = Inr () \<and>
   reports (trace (snd (process_task test_cfg (reliable_client []) empty_failure_registry test_task
                          (init ())))) =
     [Heartbeat test_task 1 (Some [(''state'', JStr ''starting'')]),
      UpdateStatus test_task 2 ''running'' None None,
      Complete test_task 3 ''failed'' [] []] \<and>
   spec_success_calls test_task empty_failure_result =
     [Heartbeat test_task 1 (Some [(''state'', JStr ''starting'')]),
      UpdateStatus test_task 2 ''failed'' (Some []) None,
      Complete test_task 3 ''failed'' [] []] \<and>
   reports (trace (snd (process_task test_cfg (reliable_client []) empty_failure_registry test_task
                          (init ())))) \<noteq> spec_success_calls test_task empty_failure_result"
  by (simp add: loop_defs init_def test_cfg_def test_task_def reliable_client_def
      scripted_client_def ack_def empty_failure_registry_def empty_failure_runner_def
      empty_failure_payload_def empty_failure_result_def test_builtins_def format_value_def
      spec_success_calls_def coerce_result_def payload_get_def valid_final_status_def py_iter_def)

subsection \<open>C2: the exception path\<close>



subsection \<open>C3: a cycle with tasks\<close>



subsection \<open>C4: where the final status is checked\<close>

text \<open>
  C4, as the code has it. The check of \<open>final_status\<close> against \<open>completed\<close>, \<open>failed\<close>,
  \<open>canceled\<close> is made by the bridge's \<open>_coerce_result\<close>, on the answer of a hook or
  command and before a \<open>RunnerResult\<close> is built from it: a result it returns has a valid
  final status, and an answer with any other final status is rejected with a
  \<open>RuntimeError\<close>. Hence every result of the built-in runner \<open>IntegraAssistRunner\<close> has a
  valid final status, and with the registry that the claim loop builds by default
  (\<open>RunnerRegistry()\<close>) no \<open>complete\<close> call of a cycle carries a final status outside the
  three values. The claim loop itself makes no check: it hands the final status of
  whatever runner the registry gave it to \<open>complete\<close>.
\<close>

theorem final_status_checked_at_bridge:
  "(\<forall>r. coerce_result B payload = Inr r \<longrightarrow> valid_final_status (final_status r)) \<and>
   (\<not> valid_final_status (format_value B (payload_get payload ''final_status'' (JStr ''failed''))) \<longrightarrow>
      coerce_result B payload =
        Inl (RuntimeError (''Invalid final_status from hook/command: ''
               @ format_value B (payload_get payload ''final_status'' (JStr ''failed''))))) \<and>
   (\<forall>r w'. IntegraAssistRunner_run B P task w = (Inr r, w') \<longrightarrow> valid_final_status (final_status r)) \<and>
   list_all valid_final_status
     (complete_statuses
        (trace (snd (run_cycle str_exc cfg client (registry_of (RunnerRegistry B P)) (init w0)))))"
  using coerce_result_valid[of B payload] coerce_result_invalid[of B payload]
    IntegraAssistRunner_run_valid[of B P task w]
    run_cycle_statuses[OF valid_runners_default, of str_exc cfg client B P w0]
  by blast

text \<open>The hook answers with the final status \<open>bogus\<close>: the bridge rejects the answer, the
  runner turns the rejection into a \<open>failed\<close> result, and \<open>complete\<close> is called with
  \<open>failed\<close>.\<close>

theorem final_status_checked_at_bridge_witness:
  "\<not> valid_final_status ''bogus'' \<and>
   coerce_result test_builtins [(''final_status'', JStr ''bogus'')] =
     Inl (RuntimeError ''Invalid final_status from hook/command: bogus'') \<and>
   coerce_result test_builtins empty_failure_payload = Inr empty_failure_result \<and>
   valid_final_status (final_status empty_failure_result) \<and>
   fst (IntegraAssistRunner_run test_builtins hook_platform plain_task ()) = Inr hook_failure_result \<and>
   valid_final_status (final_status hook_failure_result) \<and>
   complete_statuses
     (trace (snd (run_cycle test_str_exc test_cfg (reliable_client [plain_task])
                    (registry_of (RunnerRegistry test_builtins hook_platform)) (init ()))))
     = [''failed''] \<and>
   list_all valid_final_status
     (complete_statuses
        (trace (snd (run_cycle test_str_exc test_cfg (reliable_client [plain_task])
                       (registry_of (RunnerRegistry test_builtins hook_platform)) (init ())))))"
proof -
  have b: "\<not> valid_final_status (format_value test_builtins
              (payload_get [(''final_status'', JStr ''bogus'')] ''final_status'' (JStr ''failed'')))"
    by (simp add: valid_final_status_def format_value_def payload_get_def)
  have e: "coerce_result test_builtins empty_failure_payload = Inr empty_failure_result"
    by (simp add: coerce_result_def empty_failure_payload_def empty_failure_result_def
        payload_get_def format_value_def valid_final_status_def py_iter_def)
  have h: "IntegraAssistRunner_run test_builtins hook_platform plain_task () =
             (Inr hook_failure_result, ())"
    by (simp add: IntegraAssistRunner_run_def force_simulate_def os_getenv_def hook_platform_def
        sim_platform_def string_defs run_integra_task_def ensure_pylabrobot_import_def
        coerce_outcome_def run_hook_def parse_hook_spec_def bogus_hook_def coerce_result_def
        payload_get_def format_value_def valid_final_status_def plain_task_def test_task_def
        bind_sum_def dict_get_def truthy_def test_builtins_def test_str_exc_def
        hook_failure_result_def Let_def)
  have a: "adapter_id plain_task = JStr ''integra_assist''"
    by (simp add: plain_task_def test_task_def)
  have c: "complete_statuses
     (trace (snd (run_cycle test_str_exc test_cfg (reliable_client [plain_task])
                    (registry_of (RunnerRegistry test_builtins hook_platform)) (init ()))))
     = [''failed'']"
    by (simp add: loop_defs init_def reliable_client_def scripted_client_def registry_of_def
        RunnerRegistry_get_def RunnerRegistry_def string_defs a h hook_failure_result_def)
  from final_status_checked_at_bridge[of test_builtins "[(''final_status'', JStr ''bogus'')]"
      hook_platform plain_task "()" test_str_exc test_cfg "reliable_client [plain_task]" "()"]
    final_status_checked_at_bridge[of test_builtins empty_failure_payload
      hook_platform plain_task "()" test_str_exc test_cfg "reliable_client [plain_task]" "()"]
    b e h c
  show ?thesis
    by (simp add: format_value_def payload_get_def)
qed

text \<open>
  As worded, C4 holds of every runner. The claim loop takes any registry object
  (\<open>tests/test_claim_loop.py\<close> passes its own); with one whose runner returns the final
  status \<open>bogus\<close>, \<open>complete\<close> is called with \<open>bogus\<close>.
\<close>

theorem final_status_unchecked_counterexample:
  "fst (bogus_runner test_task False) = Inr bogus_result \<and>
   final_status bogus_result = ''bogus'' \<and>
   \<not> valid_final_status ''bogus'' \<and>
   fst (run_cycle test_str_exc test_cfg fake_client bogus_registry (init False)) = Inr 1 \<and>
   reports (trace (snd (run_cycle test_str_exc test_cfg fake_client bogus_registry (init False)))) =
     [Heartbeat test_task 1 (Some [(''state'', JStr ''starting'')]),
      UpdateStatus test_task 2 ''running'' None None,
      Complete test_task 3 ''bogus'' [] []] \<and>
   \<not> list_all valid_final_status
       (complete_statuses
          (trace (snd (run_cycle test_str_exc test_cfg fake_client bogus_registry (init False)))))"
  by (simp add: loop_defs init_def test_cfg_def test_task_def fake_client_def ack_def
      bogus_registry_def bogus_runner_def bogus_result_def test_str_exc_def valid_final_status_def)

subsection \<open>C5: the idle cycle\<close>

text \<open>
  C5. When \<open>claim_tasks\<close> returns the empty list, \<open>run_cycle\<close> returns 0, and all it does
  besides the claim is to log the \<open>idle\<close> event: it makes no reporting call.
\<close>

theorem idle_cycle:
  assumes "claim_tasks client (world s) = (Inr [], w0)"
  shows "run_cycle str_exc cfg client registry s =
           (Inr 0, \<lparr>trace = trace s @ [ClaimTasks, Log ''idle'' [(''executorId'', JStr (executor_id cfg))]],
                    world = w0\<rparr>) \<and>
         reports (drop (length (trace s)) (trace (snd (run_cycle str_exc cfg client registry s)))) = []"
  using assms by (simp add: run_cycle_claimed)

theorem idle_cycle_witness:
  "claim_tasks fake_client True = (Inr [], True) \<and>
   run_cycle test_str_exc test_cfg fake_client fake_registry (init True) =
     (Inr 0, \<lparr>trace = [ClaimTasks, Log ''idle'' [(''executorId'', JStr ''pyexec-test'')]],
              world = True\<rparr>) \<and>
   reports (trace (snd (run_cycle test_str_exc test_cfg fake_client fake_registry (init True)))) = []"
proof -
  have c: "claim_tasks fake_client (world (init True)) = (Inr [], True)"
    by (simp add: fake_client_def init_def)
  from idle_cycle[OF c, of test_str_exc test_cfg fake_registry] c
  show ?thesis by (simp add: init_def test_cfg_def)
qed

subsection \<open>C6: the registry lookup\<close>



subsection \<open>C7: claiming over the transport\<close>

text \<open>
  C7. \<open>claim_tasks\<close> returns the empty list when the response has an empty body, or is an
  object without \<open>tasks\<close> or with an empty \<open>tasks\<close> list. On an \<open>HTTPError\<close> it fails with
  an error whose text holds the status code and the response body (the code raises a
  \<open>RuntimeError\<close>). Each of the five operations hands exactly one request to the transport:
  nothing is retried.
\<close>

theorem claim_tasks_transport:
  "(urlopen (claim_request cfg) (net w) = (Response b, n') \<longrightarrow>
      (b = [] \<or> (\<exists>kvs. json_loads B b = Some (JDict kvs) \<and>
                     (map_of kvs ''tasks'' = None \<or> map_of kvs ''tasks'' = Some (JList [])))) \<longrightarrow>
      CLClient_claim_tasks B urlopen cfg w =
        (Inr [], \<lparr>sent = sent w @ [claim_request cfg], net = n'\<rparr>)) \<and>
   (urlopen (claim_request cfg) (net w) = (HTTPError status detail, n') \<longrightarrow>
      CLClient_claim_tasks B urlopen cfg w =
        (Inl (RuntimeError (''HTTP '' @ str_int status @ '' /execution-tasks/claim: '' @ detail)),
         \<lparr>sent = sent w @ [claim_request cfg], net = n'\<rparr>)) \<and>
   sent (snd (claim_tasks (CLClient B urlopen cfg) w)) = sent w @ [claim_request cfg] \<and>
   length (sent (snd (perform (CLClient B urlopen cfg) c w))) = length (sent w) + 1"
proof -
  have "CLClient_claim_tasks B urlopen cfg w =
          (Inr [], \<lparr>sent = sent w @ [claim_request cfg], net = n'\<rparr>)"
    if u: "urlopen (claim_request cfg) (net w) = (Response b, n')"
      and b: "b = [] \<or> (\<exists>kvs. json_loads B b = Some (JDict kvs) \<and>
                     (map_of kvs ''tasks'' = None \<or> map_of kvs ''tasks'' = Some (JList [])))"
  proof (cases "b = []")
    case True
    with u show ?thesis by (simp add: claim_tasks_empty_body)
  next
    case False
    with b obtain kvs where "json_loads B b = Some (JDict kvs)"
      "map_of kvs ''tasks'' = None \<or> map_of kvs ''tasks'' = Some (JList [])" by blast
    with u False show ?thesis
      by (auto simp: claim_tasks_decoded bind_sum_def dict_get_def py_iter_def)
  qed
  moreover have "sent (snd (claim_tasks (CLClient B urlopen cfg) w)) = sent w @ [claim_request cfg]"
    by (simp add: CLClient_def claim_tasks_sent)
  moreover have "length (sent (snd (perform (CLClient B urlopen cfg) c w))) = length (sent w) + 1"
    using perform_sent[of B urlopen cfg c w] by auto
  ultimately show ?thesis
    using claim_tasks_http_error[of urlopen cfg w status detail n' B] by blast
qed

theorem claim_tasks_transport_witness:
  "CLClient_claim_tasks test_builtins (canned_transport (Response [])) test_cfg \<lparr>sent = [], net = ()\<rparr>
     = (Inr [], \<lparr>sent = [claim_request test_cfg], net = ()\<rparr>) \<and>
   CLClient_claim_tasks test_builtins (canned_transport (HTTPError 503 ''overloaded'')) test_cfg
       \<lparr>sent = [], net = ()\<rparr>
     = (Inl (RuntimeError ''HTTP 503 /execution-tasks/claim: overloaded''),
        \<lparr>sent = [claim_request test_cfg], net = ()\<rparr>) \<and>
   length (sent (snd (perform (CLClient test_builtins (canned_transport (HTTPError 503 ''overloaded''))
                                 test_cfg)
                        (first_heartbeat test_task) \<lparr>sent = [], net = ()\<rparr>))) = 1"
proof -
  have s: "str_int 503 = ''503''"
    by code_simp
  from claim_tasks_transport[of "canned_transport (Response [])" test_cfg "\<lparr>sent = [], net = ()\<rparr>"
      "[]" "()" test_builtins 503 "''overloaded''" "first_heartbeat test_task"]
    claim_tasks_transport[of "canned_transport (HTTPError 503 ''overloaded'')" test_cfg
      "\<lparr>sent = [], net = ()\<rparr>" "[]" "()" test_builtins 503 "''overloaded''" "first_heartbeat test_task"]
    s
  show ?thesis by (simp add: canned_transport_def)
qed

subsection \<open>C8: the perpetual loop\<close>



subsection \<open>C9: a failing claim\<close>

text \<open>
  C9. When \<open>claim_tasks\<close> raises, the exception leaves \<open>run_cycle\<close>: no count is returned,
  and nothing is done besides the claim (no task is processed, no event is logged, no
  reporting or recovery call is made).
\<close>

theorem claim_failure_propagates:
  assumes "claim_tasks client (world s) = (Inl e, w0)"
  shows "run_cycle str_exc cfg client registry s =
           (Inl e, \<lparr>trace = trace s @ [ClaimTasks], world = w0\<rparr>)"
  using assms by (rule run_cycle_raised)

theorem claim_failure_propagates_witness:
  "claim_tasks failing_claim_client () = (Inl unreachable, ()) \<and>
   run_cycle test_str_exc test_cfg failing_claim_client fake_registry (init ()) =
     (Inl unreachable, \<lparr>trace = [ClaimTasks], world = ()\<rparr>)"
proof -
  have c: "claim_tasks failing_claim_client (world (init ())) = (Inl unreachable, ())"
    by (simp add: failing_claim_client_def scripted_client_def)
  from claim_failure_propagates[OF c, of test_str_exc test_cfg fake_registry] c
  show ?thesis by (simp add: init_def)
qed

subsection \<open>C10: the items of a claim response\<close>



end
